theory Spec2Isabelle
  imports Complex_Main
begin

section \<open>Hadamard-test gradient of a quantum tape\<close>

text \<open>
  A shallow embedding of \<^verbatim>\<open>pennylane/gradients/hadamard_gradient.py\<close>: the generator
  lookup \<^verbatim>\<open>_get_generators\<close>, the circuit transform \<^verbatim>\<open>_expval_hadamard_grad\<close> with its
  post-processing closure \<^verbatim>\<open>processing_fn\<close>, and the validating entry point
  \<^verbatim>\<open>_hadamard_grad\<close>. Python floats are modelled as exact reals, so numeric statements
  are about the arithmetic the code asks for, not about rounding. Leading underscores
  of the Python names are dropped.
\<close>

subsection \<open>Data model\<close>

text \<open>Wire labels. PennyLane accepts any hashable label; numbers suffice here.\<close>

type_synonym wire = nat

text \<open>
  Observables as the module builds them: Pauli operators on a wire list, products made
  by \<^verbatim>\<open>qml.prod\<close> (operators that are not of the class \<^verbatim>\<open>Observable\<close>), tensors made by
  \<^verbatim>\<open>qml.operation.Tensor\<close> (its \<^verbatim>\<open>obs\<close> attribute is the factor list), and any other
  named observable.
\<close>

datatype observable =
    PauliX "wire list"
  | PauliY "wire list"
  | PauliZ "wire list"
  | Prod_obs observable observable
  | Tensor "observable list"
  | OtherObs string "wire list"

text \<open>The gate classes the module inspects with \<^verbatim>\<open>isinstance\<close> or constructs.\<close>

datatype op_kind =
    PhaseShift | U1 | CRX | CRY | CRZ | IsingXX | IsingYY | IsingZZ | Rot
  | RX | RY | RZ | Hadamard | OtherOp string

text \<open>
  An operation is a gate with its \<^verbatim>\<open>data\<close> (numeric parameters) and \<^verbatim>\<open>wires\<close>, or the
  result of \<^verbatim>\<open>qml.ctrl(gen, control=aux_wire)\<close>.
\<close>

datatype operation =
    Gate op_kind "real list" "wire list"
  | Controlled observable "wire list"

fun op_data :: "operation \<Rightarrow> real list" where
  "op_data (Gate k d ws) = d"
| "op_data (Controlled g cs) = []"

fun is_kind :: "op_kind \<Rightarrow> operation \<Rightarrow> bool" where
  "is_kind k (Gate k' d ws) = (k = k')"
| "is_kind k (Controlled g cs) = False"

text \<open>
  Every Python exception the modelled code can raise. The first six carry the messages
  of the source:
  \<^item> \<open>NewReturnRequired\<close>: NotImplementedError, "The Hadamard gradient only supports the
    new return type ...";
  \<^item> \<open>VarianceNotImplemented\<close>: ValueError, "Computing the gradient of variances with the
    Hadamard test gradient is not implemented.";
  \<^item> \<open>StateNotSupported\<close>: ValueError, "Computing the gradient of circuits that return
    the state is not supported.";
  \<^item> \<open>NoFreeWire\<close>: QuantumFunctionError, "The device has no free wire for the auxiliary
    wire.";
  \<^item> \<open>AuxWireUsed\<close>: QuantumFunctionError, "The auxiliary wire is already used.";
  \<^item> \<open>AuxWireNotOnDevice\<close>: QuantumFunctionError, "The requested auxiliary wire does
    not exist on the used device.".
  The others are raised by Python itself or by a collaborator.
\<close>

datatype error =
    NewReturnRequired
  | VarianceNotImplemented
  | StateNotSupported
  | NoFreeWire
  | AuxWireUsed
  | AuxWireNotOnDevice
  | IndexError
  | TypeError
  | ValueError
  | External string

subsection \<open>Generator lookup\<close>

text \<open>Python's \<^verbatim>\<open>wires[i]\<close>: IndexError out of range.\<close>

definition wire_at :: "wire list \<Rightarrow> nat \<Rightarrow> error + wire" where
  "wire_at ws i = (if i < length ws then Inr (ws ! i) else Inl IndexError)"

text \<open>
  The three controlled rotations and the three Ising gates share one shape each; \<open>P\<close> is
  the Pauli constructor of the branch.
\<close>

definition controlled_rotation_terms ::
  "(wire list \<Rightarrow> observable) \<Rightarrow> wire list \<Rightarrow> error + (real list \<times> observable list)" where
  "controlled_rotation_terms P ws =
     (case wire_at ws 1 of Inl e \<Rightarrow> Inl e | Inr t \<Rightarrow>
      case wire_at ws 0 of Inl e \<Rightarrow> Inl e | Inr c \<Rightarrow>
        Inr ([- 0.25, 0.25], [P [t], Prod_obs (PauliZ [c]) (P [t])]))"

definition ising_terms ::
  "(wire list \<Rightarrow> observable) \<Rightarrow> wire list \<Rightarrow> error + (real list \<times> observable list)" where
  "ising_terms P ws =
     (case wire_at ws 0 of Inl e \<Rightarrow> Inl e | Inr a \<Rightarrow>
      case wire_at ws 1 of Inl e \<Rightarrow> Inl e | Inr b \<Rightarrow>
        Inr ([- 0.5], [Prod_obs (P [a]) (P [b])]))"

text \<open>
  \<^verbatim>\<open>_get_generators(trainable_op)\<close>. The last branch reads
  \<^verbatim>\<open>trainable_op.generator()\<close>, a method of the operator classes that live outside this
  module: it is the parameter \<open>native\<close>, which may raise.
\<close>

fun get_generators ::
  "(operation \<Rightarrow> error + (real list \<times> observable list)) \<Rightarrow> operation \<Rightarrow>
   error + (real list \<times> observable list)" where
  "get_generators native (Gate PhaseShift d ws) = Inr ([- 0.5], [PauliZ ws])"
| "get_generators native (Gate U1 d ws) = Inr ([- 0.5], [PauliZ ws])"
| "get_generators native (Gate CRX d ws) = controlled_rotation_terms PauliX ws"
| "get_generators native (Gate CRY d ws) = controlled_rotation_terms PauliY ws"
| "get_generators native (Gate CRZ d ws) = controlled_rotation_terms PauliZ ws"
| "get_generators native (Gate IsingXX d ws) = ising_terms PauliX ws"
| "get_generators native (Gate IsingYY d ws) = ising_terms PauliY ws"
| "get_generators native (Gate IsingZZ d ws) = ising_terms PauliZ ws"
| "get_generators native (Gate Rot d ws) = Inr ([- 0.5], [PauliZ ws])"
| "get_generators native op = native op"

subsection \<open>Tapes and measurements\<close>

text \<open>The measurement classes: the two the transform keeps and the ones it names or lets by.\<close>

datatype mp_kind =
    ExpectationMP | ProbabilityMP | VarianceMP | StateMP | VnEntropyMP | MutualInfoMP
  | SampleMP | CountsMP

text \<open>
  A measurement process: its class, its observable (\<^verbatim>\<open>None\<close> when absent) and the wires
  it was given when it has no observable.
\<close>

datatype measurement =
  Measurement (mp_kind: mp_kind) (obs: "observable option") (given_wires: "wire list")

text \<open>
  Modelled from the spec: the \<^verbatim>\<open>wires\<close> attribute of observables and measurements, computed
  by the operator and measurement classes that are not part of this module. A composite
  observable has the wires of its factors in order of first occurrence; a measurement
  "in computational basis over stated wires" has the wires it was given, and a
  measurement of an observable has the observable's wires.
\<close>

definition all_wires :: "wire list list \<Rightarrow> wire list" where
  "all_wires wss = rev (remdups (rev (concat wss)))"

fun obs_wires :: "observable \<Rightarrow> wire list" where
  "obs_wires (PauliX ws) = ws"
| "obs_wires (PauliY ws) = ws"
| "obs_wires (PauliZ ws) = ws"
| "obs_wires (Prod_obs a b) = all_wires [obs_wires a, obs_wires b]"
| "obs_wires (Tensor os) = all_wires (map obs_wires os)"
| "obs_wires (OtherObs n ws) = ws"

definition meas_wires :: "measurement \<Rightarrow> wire list" where
  "meas_wires m = (case obs m of Some ob \<Rightarrow> obs_wires ob | None \<Rightarrow> given_wires m)"

text \<open>
  The input tape, read only: gate sequence, measurement sequence, the indices of the
  trainable parameters among all gate parameters, and the wire set the tape exposes.
\<close>

record tape =
  operations :: "operation list"
  measurements :: "measurement list"
  trainable_params :: "nat list"
  wires :: "wire list"

text \<open>An emitted circuit, \<^verbatim>\<open>qml.tape.QuantumScript(ops=..., measurements=...)\<close>.\<close>

record quantum_script =
  script_ops :: "operation list"
  script_measurements :: "measurement list"

text \<open>
  Modelled from the spec: \<^verbatim>\<open>tape.get_operation(idx)\<close>, a method of the tape class, which
  is not part of this module. A trainable parameter reference "resolves to (owning gate,
  position within gate's parameter index)": \<open>par_info\<close> lists, for every gate parameter in
  circuit order, the gate, the gate's position in the gate sequence and the parameter's
  position in the gate; the reference \<open>i\<close> selects entry \<open>trainable_params ! i\<close>.
\<close>

fun par_info :: "nat \<Rightarrow> operation list \<Rightarrow> (operation \<times> nat \<times> nat) list" where
  "par_info i [] = []"
| "par_info i (op # ops) =
     map (\<lambda>p. (op, i, p)) [0..<length (op_data op)] @ par_info (Suc i) ops"

definition get_operation :: "tape \<Rightarrow> nat \<Rightarrow> error + (operation \<times> nat \<times> nat)" where
  "get_operation t i =
     (if i < length (trainable_params t) then
        (let t_idx = trainable_params t ! i; info = par_info 0 (operations t)
         in if t_idx < length info then Inr (info ! t_idx) else Inl IndexError)
      else Inl IndexError)"

text \<open>
  The collaborators of the module, as parameters: the \<^verbatim>\<open>generator()\<close> method of gates
  without an entry in the lookup, \<^verbatim>\<open>qml.tape.tape.rotations_and_diagonal_measurements\<close>,
  the flag \<^verbatim>\<open>qml.active_return()\<close>, \<^verbatim>\<open>gradient_analysis\<close> followed by
  \<^verbatim>\<open>grad_method_validation\<close>, \<^verbatim>\<open>choose_grad_methods\<close> (its dictionary as the list of its
  items) and \<^verbatim>\<open>_get_aux_wire\<close>. Each of them may raise.
\<close>

record collaborators =
  generator :: "operation \<Rightarrow> error + (real list \<times> observable list)"
  rotations_and_diagonal_measurements ::
    "quantum_script \<Rightarrow> error + (operation list \<times> measurement list)"
  active_return :: bool
  grad_method_validation :: "tape \<Rightarrow> error + string list"
  choose_grad_methods :: "string list \<Rightarrow> nat list option \<Rightarrow> error + (nat \<times> string) list"
  get_aux_wire :: "tape \<Rightarrow> wire list option \<Rightarrow> error + wire list"

subsection \<open>The circuit transform\<close>

text \<open>Running a list of computations: the first exception ends it.\<close>

fun collect :: "(error + 'a) list \<Rightarrow> error + 'a list" where
  "collect [] = Inr []"
| "collect (x # xs) =
     (case x of
        Inl e \<Rightarrow> Inl e
      | Inr v \<Rightarrow> (case collect xs of Inl e \<Rightarrow> Inl e | Inr vs \<Rightarrow> Inr (v # vs)))"

text \<open>
  The branch \<^verbatim>\<open>if isinstance(trainable_op, qml.Rot)\<close> at the head of the loop over
  generators. It updates the two gate lists in place: for the first parameter it pops
  the last gate of \<^verbatim>\<open>ops_to_trainable_op\<close> and puts it in front of
  \<^verbatim>\<open>ops_after_trainable_op\<close>; for the second it extends the first list by
  \<^verbatim>\<open>RZ(-data[2]), RX(pi/2)\<close> and puts \<^verbatim>\<open>RX(-pi/2), RZ(data[2])\<close> in front of the second.
\<close>

fun rot_compensation ::
  "operation \<Rightarrow> nat \<Rightarrow> operation list \<Rightarrow> operation list \<Rightarrow>
   error + (operation list \<times> operation list)" where
  "rot_compensation (Gate Rot d ws) p_idx ops_to ops_after =
     (if p_idx = 0 then
        (if ops_to = [] then Inl IndexError
         else Inr (butlast ops_to, [last ops_to] @ ops_after))
      else if p_idx = 1 then
        (if 2 < length d then
           Inr (ops_to @ [Gate RZ [- (d ! 2)] ws, Gate RX [pi / 2] ws],
                [Gate RX [- pi / 2] ws, Gate RZ [d ! 2] ws] @ ops_after)
         else Inl IndexError)
      else Inr (ops_to, ops_after))"
| "rot_compensation op p_idx ops_to ops_after = Inr (ops_to, ops_after)"

text \<open>
  Modelled from the spec: the constructor \<^verbatim>\<open>qml.operation.Tensor(*args)\<close> of the operator
  classes, which are not part of this module; it builds the spec's tensor product of
  observables. It takes over the factors of an argument that is a Tensor, appends an
  argument that is an observable, and raises a ValueError ("Can only perform tensor
  products between observables.") for any other operator, as the result of \<^verbatim>\<open>qml.prod\<close>
  is.
\<close>

fun is_observable :: "observable \<Rightarrow> bool" where
  "is_observable (Prod_obs a b) = False"
| "is_observable ob = True"

fun tensor_factors :: "observable list \<Rightarrow> error + observable list" where
  "tensor_factors [] = Inr []"
| "tensor_factors (Tensor os # rest) =
     (case tensor_factors rest of Inl e \<Rightarrow> Inl e | Inr fs \<Rightarrow> Inr (os @ fs))"
| "tensor_factors (ob # rest) =
     (if is_observable ob then
        (case tensor_factors rest of Inl e \<Rightarrow> Inl e | Inr fs \<Rightarrow> Inr (ob # fs))
      else Inl ValueError)"

definition make_tensor :: "observable list \<Rightarrow> error + observable" where
  "make_tensor args =
     (case tensor_factors args of Inl e \<Rightarrow> Inl e | Inr fs \<Rightarrow> Inr (Tensor fs))"

text \<open>
  The body of \<^verbatim>\<open>for m in tape.measurements\<close>: the factors of the observable (those of a
  Tensor, the observable itself, or PauliZ on each wire when there is none), then
  PauliY on the auxiliary wire, made into a Tensor; \<^verbatim>\<open>expval\<close> for an ExpectationMP and
  \<^verbatim>\<open>probs\<close> for every other class.
\<close>

definition obs_factors :: "measurement \<Rightarrow> observable list" where
  "obs_factors m =
     (case obs m of
        Some (Tensor os) \<Rightarrow> os
      | Some ob \<Rightarrow> [ob]
      | None \<Rightarrow> map (\<lambda>i. PauliZ [i]) (meas_wires m))"

definition extend_measurement :: "wire list \<Rightarrow> measurement \<Rightarrow> error + measurement" where
  "extend_measurement aux_wire m =
     (case make_tensor (obs_factors m @ [PauliY aux_wire]) of
        Inl e \<Rightarrow> Inl e
      | Inr obs_new \<Rightarrow>
          if mp_kind m = ExpectationMP then Inr (Measurement ExpectationMP (Some obs_new) [])
          else Inr (Measurement ProbabilityMP (Some obs_new) []))"

text \<open>
  One auxiliary circuit: the gate list around the Hadamard test, the extended
  measurements (the first that cannot be built raises), then the rotations and the
  measurements that \<^verbatim>\<open>rotations_and_diagonal_measurements\<close> returns for that script.
\<close>

definition hadamard_test :: "wire list \<Rightarrow> observable \<Rightarrow> operation list" where
  "hadamard_test aux_wire gen =
     [Gate Hadamard [] aux_wire] @ [Controlled gen aux_wire] @ [Gate Hadamard [] aux_wire]"

definition new_tape ::
  "collaborators \<Rightarrow> tape \<Rightarrow> wire list \<Rightarrow> operation list \<Rightarrow> operation list \<Rightarrow> observable \<Rightarrow>
   error + quantum_script" where
  "new_tape ext t aux_wire ops_to ops_after gen =
     (let ops = ops_to @ hadamard_test aux_wire gen @ ops_after
      in case collect (map (extend_measurement aux_wire) (measurements t)) of
           Inl e \<Rightarrow> Inl e
         | Inr ms \<Rightarrow>
             (case rotations_and_diagonal_measurements ext
                     \<lparr>script_ops = ops, script_measurements = ms\<rparr> of
                Inl e \<Rightarrow> Inl e
              | Inr (rotations, diagonal) \<Rightarrow>
                  Inr \<lparr>script_ops = ops @ rotations, script_measurements = diagonal\<rparr>))"

text \<open>
  \<^verbatim>\<open>for gen in generators\<close>: the two gate lists are carried from one generator to the
  next, as the in-place updates of the source are.
\<close>

fun generator_loop ::
  "collaborators \<Rightarrow> tape \<Rightarrow> wire list \<Rightarrow> operation \<Rightarrow> nat \<Rightarrow> observable list \<Rightarrow>
   operation list \<Rightarrow> operation list \<Rightarrow> error + quantum_script list" where
  "generator_loop ext t aux_wire trainable_op p_idx [] ops_to ops_after = Inr []"
| "generator_loop ext t aux_wire trainable_op p_idx (gen # gens) ops_to ops_after =
     (case rot_compensation trainable_op p_idx ops_to ops_after of
        Inl e \<Rightarrow> Inl e
      | Inr (ops_to', ops_after') \<Rightarrow>
          (case new_tape ext t aux_wire ops_to' ops_after' gen of
             Inl e \<Rightarrow> Inl e
           | Inr tp \<Rightarrow>
               (case generator_loop ext t aux_wire trainable_op p_idx gens ops_to' ops_after' of
                  Inl e \<Rightarrow> Inl e
                | Inr tps \<Rightarrow> Inr (tp # tps))))"

text \<open>
  The body of the loop over the trainable parameters for a parameter that is
  differentiated: the coefficients and the circuits of that parameter.
\<close>

definition differentiate ::
  "collaborators \<Rightarrow> tape \<Rightarrow> wire list \<Rightarrow> nat \<Rightarrow> error + (real list \<times> quantum_script list)" where
  "differentiate ext t aux_wire id_argnum =
     (case get_operation t id_argnum of
        Inl e \<Rightarrow> Inl e
      | Inr (trainable_op, idx, p_idx) \<Rightarrow>
          (let ops_to_trainable_op = take (idx + 1) (operations t);
               ops_after_trainable_op = drop (idx + 1) (operations t)
           in case get_generators (generator ext) trainable_op of
                Inl e \<Rightarrow> Inl e
              | Inr (sub_coeffs, generators) \<Rightarrow>
                  (case generator_loop ext t aux_wire trainable_op p_idx generators
                          ops_to_trainable_op ops_after_trainable_op of
                     Inl e \<Rightarrow> Inl e
                   | Inr tps \<Rightarrow> Inr (sub_coeffs, tps))))"

text \<open>
  \<^verbatim>\<open>for id_argnum, _ in enumerate(tape.trainable_params)\<close>, with the three accumulators
  \<^verbatim>\<open>g_tapes\<close>, \<^verbatim>\<open>coeffs\<close> and \<^verbatim>\<open>gradient_data\<close>.
\<close>

fun param_loop ::
  "collaborators \<Rightarrow> tape \<Rightarrow> wire list \<Rightarrow> nat list \<Rightarrow> nat list \<Rightarrow>
   quantum_script list \<times> real list \<times> nat list \<Rightarrow>
   error + (quantum_script list \<times> real list \<times> nat list)" where
  "param_loop ext t aux_wire argnums [] acc = Inr acc"
| "param_loop ext t aux_wire argnums (id_argnum # rest) (g_tapes, coeffs, gradient_data) =
     (if id_argnum \<notin> set argnums then
        param_loop ext t aux_wire argnums rest (g_tapes, coeffs, gradient_data @ [0])
      else
        (case differentiate ext t aux_wire id_argnum of
           Inl e \<Rightarrow> Inl e
         | Inr (sub_coeffs, tps) \<Rightarrow>
             param_loop ext t aux_wire argnums rest
               (g_tapes @ tps, coeffs @ sub_coeffs, gradient_data @ [length tps])))"

text \<open>
  \<^verbatim>\<open>_expval_hadamard_grad(tape, argnum, aux_wire)\<close>. It returns the circuits and the data
  its closure \<^verbatim>\<open>processing_fn\<close> captures: the coefficients and the emission counts.
  \<^verbatim>\<open>argnum or tape.trainable_params\<close> takes the second list when the first is empty.
\<close>

definition expval_hadamard_grad ::
  "collaborators \<Rightarrow> tape \<Rightarrow> nat list \<Rightarrow> wire list \<Rightarrow>
   error + (quantum_script list \<times> real list \<times> nat list)" where
  "expval_hadamard_grad ext t argnum aux_wire =
     (let argnums = (if argnum = [] then trainable_params t else argnum)
      in param_loop ext t aux_wire argnums [0..<length (trainable_params t)] ([], [], []))"

subsection \<open>Numeric values\<close>

text \<open>
  A numeric array is a number (a scalar or a 0-dimensional array) or a sequence of arrays
  along its first axis. A Python object of the post-processing is an array or a tuple or
  list of values; the source tells the two apart with \<^verbatim>\<open>isinstance(res, tuple)\<close>.
\<close>

datatype array = Num real | Arr "array list"

datatype pyval = A array | Seq "pyval list"

text \<open>
  Modelled from the spec: the "numeric/tensor operations (scale, reshape,
  axis-contraction, elementwise sum)" of \<^verbatim>\<open>qml.math\<close>, which dispatches to NumPy, with the
  arguments the source passes.
  \<^item> \<open>scale\<close>: a number times an array; \<open>times\<close> is \<^verbatim>\<open>c * r\<close> for a float \<open>c\<close>, a TypeError
    when \<open>r\<close> is a tuple or list.
  \<^item> \<open>reshape x r c\<close>: \<^verbatim>\<open>reshape(x, (r, c))\<close>, the entries in row-major order cut into \<open>r\<close>
    rows of \<open>c\<close>; a ValueError when the size is not \<open>r * c\<close>.
  \<^item> \<open>tensordot m v\<close>: \<^verbatim>\<open>tensordot(m, v, axes=[[1], [0]])\<close>, each row of \<open>m\<close> contracted
    against \<open>v\<close>.
  \<^item> \<open>np_sum None xs\<close>: \<^verbatim>\<open>sum(xs, axis=None)\<close>, the sum of all entries of all members of \<open>xs\<close>,
    a scalar; \<open>np_sum (Some 0) xs\<close>: \<^verbatim>\<open>sum(xs, axis=0)\<close>, the members of \<open>xs\<close> added entry by
    entry, a ValueError when their shapes differ.
  \<^item> \<open>index x i\<close>: \<^verbatim>\<open>x[i]\<close>, an IndexError out of range and on a 0-dimensional array;
    \<open>to_tuple x\<close>: \<^verbatim>\<open>tuple(x)\<close>, a TypeError on a 0-dimensional array.
\<close>

fun scale :: "real \<Rightarrow> array \<Rightarrow> array" where
  "scale c (Num x) = Num (c * x)"
| "scale c (Arr xs) = Arr (map (scale c) xs)"

fun times :: "real \<Rightarrow> pyval \<Rightarrow> error + pyval" where
  "times c (A a) = Inr (A (scale c a))"
| "times c (Seq xs) = Inl TypeError"

fun to_array :: "pyval \<Rightarrow> array" where
  "to_array (A a) = a"
| "to_array (Seq xs) = Arr (map to_array xs)"

fun flatten :: "array \<Rightarrow> real list" where
  "flatten (Num x) = [x]"
| "flatten (Arr xs) = concat (map flatten xs)"

definition reshape :: "pyval \<Rightarrow> nat \<Rightarrow> nat \<Rightarrow> error + real list list" where
  "reshape x r c =
     (let flat = flatten (to_array x)
      in if length flat = r * c then Inr (map (\<lambda>i. take c (drop (i * c) flat)) [0..<r])
         else Inl ValueError)"

definition tensordot :: "real list list \<Rightarrow> real list \<Rightarrow> pyval" where
  "tensordot m v = A (Arr (map (\<lambda>row. Num (sum_list (map2 (*) row v))) m))"

fun add :: "array \<Rightarrow> array \<Rightarrow> error + array"
  and add_list :: "array list \<Rightarrow> array list \<Rightarrow> error + array list" where
  "add (Num x) (Num y) = Inr (Num (x + y))"
| "add (Arr xs) (Arr ys) = (case add_list xs ys of Inl e \<Rightarrow> Inl e | Inr zs \<Rightarrow> Inr (Arr zs))"
| "add (Num x) (Arr ys) = Inl ValueError"
| "add (Arr xs) (Num y) = Inl ValueError"
| "add_list [] [] = Inr []"
| "add_list (x # xs) (y # ys) =
     (case add x y of
        Inl e \<Rightarrow> Inl e
      | Inr z \<Rightarrow> (case add_list xs ys of Inl e \<Rightarrow> Inl e | Inr zs \<Rightarrow> Inr (z # zs)))"
| "add_list [] (y # ys) = Inl ValueError"
| "add_list (x # xs) [] = Inl ValueError"

fun sum_axis0 :: "array list \<Rightarrow> error + array" where
  "sum_axis0 [] = Inr (Num 0)"
| "sum_axis0 [x] = Inr x"
| "sum_axis0 (x # y # ys) =
     (case add x y of Inl e \<Rightarrow> Inl e | Inr z \<Rightarrow> sum_axis0 (z # ys))"

fun total :: "array \<Rightarrow> real" where
  "total (Num x) = x"
| "total (Arr xs) = sum_list (map total xs)"

definition np_sum :: "nat option \<Rightarrow> pyval list \<Rightarrow> error + pyval" where
  "np_sum axis xs =
     (case axis of
        None \<Rightarrow> Inr (A (Num (sum_list (map (\<lambda>x. total (to_array x)) xs))))
      | Some _ \<Rightarrow>
          (case sum_axis0 (map to_array xs) of Inl e \<Rightarrow> Inl e | Inr a \<Rightarrow> Inr (A a)))"

fun index :: "pyval \<Rightarrow> nat \<Rightarrow> error + pyval" where
  "index (A (Num x)) i = Inl IndexError"
| "index (A (Arr xs)) i = (if i < length xs then Inr (A (xs ! i)) else Inl IndexError)"
| "index (Seq xs) i = (if i < length xs then Inr (xs ! i) else Inl IndexError)"

fun to_tuple :: "pyval \<Rightarrow> error + pyval" where
  "to_tuple (A (Num x)) = Inl TypeError"
| "to_tuple (A (Arr xs)) = Inr (Seq (map A xs))"
| "to_tuple (Seq xs) = Inr (Seq xs)"

subsection \<open>Post-processing\<close>

definition multi_measurements :: "tape \<Rightarrow> bool" where
  "multi_measurements t = (length (measurements t) > 1)"

definition multi_params :: "tape \<Rightarrow> bool" where
  "multi_params t = (length (trainable_params t) > 1)"

text \<open>The indices of the ProbabilityMP measurements, which the closure captures.\<close>

definition measurements_probs :: "tape \<Rightarrow> nat list" where
  "measurements_probs t =
     filter (\<lambda>idx. mp_kind (measurements t ! idx) = ProbabilityMP)
       [0..<length (measurements t)]"

text \<open>
  The list comprehension \<^verbatim>\<open>final_res\<close>: every member of a tuple, or the result itself,
  times \<^verbatim>\<open>2 * coeff\<close>; \<^verbatim>\<open>zip\<close> stops at the shorter list. \<^verbatim>\<open>convert_like\<close> changes the
  array type only.
\<close>

definition scale_result :: "real \<Rightarrow> pyval \<Rightarrow> error + pyval" where
  "scale_result coeff res =
     (case res of
        Seq rs \<Rightarrow>
          (case collect (map (times (2 * coeff)) rs) of
             Inl e \<Rightarrow> Inl e
           | Inr rs' \<Rightarrow> Inr (Seq rs'))
      | A a \<Rightarrow> times (2 * coeff) res)"

definition scale_results :: "real list \<Rightarrow> pyval list \<Rightarrow> error + pyval list" where
  "scale_results coeffs results =
     collect (map (\<lambda>(coeff, res). scale_result coeff res) (zip coeffs results))"

text \<open>
  The projection of one probability vector: \<^verbatim>\<open>reshape(res, (2**num_wires_probs, 2))\<close>,
  then \<^verbatim>\<open>tensordot\<close> against \<^verbatim>\<open>projector = [1, -1]\<close>.
\<close>

definition num_wires_probs :: "tape \<Rightarrow> nat \<Rightarrow> nat" where
  "num_wires_probs t prob_idx = length (meas_wires (measurements t ! prob_idx))"

definition project :: "nat \<Rightarrow> pyval \<Rightarrow> error + pyval" where
  "project n res =
     (case reshape res (2 ^ n) 2 of
        Inl e \<Rightarrow> Inl e
      | Inr res_reshaped \<Rightarrow> Inr (tensordot res_reshaped [1, - 1]))"

text \<open>
  \<^verbatim>\<open>for prob_idx in measurements_probs\<close> on one result of several measurements: entry
  \<^verbatim>\<open>prob_idx\<close> of the list is replaced by its projection. When the result is an array
  instead of a list, the projected vector is shorter than the row it is assigned to
  and NumPy cannot store it: a ValueError (an IndexError when there is no such row).
\<close>

fun project_entries :: "tape \<Rightarrow> nat list \<Rightarrow> pyval \<Rightarrow> error + pyval" where
  "project_entries t [] res = Inr res"
| "project_entries t (prob_idx # rest) res =
     (case index res prob_idx of
        Inl e \<Rightarrow> Inl e
      | Inr entry \<Rightarrow>
          (case project (num_wires_probs t prob_idx) entry of
             Inl e \<Rightarrow> Inl e
           | Inr projected \<Rightarrow>
               (case res of
                  Seq xs \<Rightarrow> project_entries t rest (Seq (xs[prob_idx := projected]))
                | A a \<Rightarrow> Inl ValueError)))"

text \<open>
  The block \<^verbatim>\<open>if measurements_probs:\<close>. The projector is converted like
  \<^verbatim>\<open>final_res[0][0]\<close> or \<^verbatim>\<open>final_res[0]\<close>, which must exist.
\<close>

definition project_probs :: "tape \<Rightarrow> pyval list \<Rightarrow> error + pyval list" where
  "project_probs t final_res =
     (if measurements_probs t = [] then Inr final_res
      else if final_res = [] then Inl IndexError
      else if multi_measurements t then
        (case index (final_res ! 0) 0 of
           Inl e \<Rightarrow> Inl e
         | Inr _ \<Rightarrow> collect (map (project_entries t (measurements_probs t)) final_res))
      else
        collect (map (project (num_wires_probs t (measurements_probs t ! 0))) final_res))"

text \<open>
  \<^verbatim>\<open>for num_tape in gradient_data\<close>, with the running position \<^verbatim>\<open>idx\<close> in \<^verbatim>\<open>final_res\<close>.
  The slice \<^verbatim>\<open>final_res[idx : idx + num_tape]\<close> never raises; \<^verbatim>\<open>final_res[idx]\<close> does out
  of range. The axis of the sum is \<^verbatim>\<open>None\<close> for a single measurement, \<^verbatim>\<open>0\<close> otherwise.
\<close>

fun aggregate :: "bool \<Rightarrow> nat list \<Rightarrow> pyval list \<Rightarrow> nat \<Rightarrow> error + pyval list" where
  "aggregate mm [] final_res idx = Inr []"
| "aggregate mm (num_tape # rest) final_res idx =
     (if num_tape = 0 then
        (case aggregate mm rest final_res idx of
           Inl e \<Rightarrow> Inl e
         | Inr grads \<Rightarrow> Inr (A (Num 0) # grads))
      else if num_tape = 1 then
        (if idx < length final_res then
           (case aggregate mm rest final_res (idx + 1) of
              Inl e \<Rightarrow> Inl e
            | Inr grads \<Rightarrow> Inr (final_res ! idx # grads))
         else Inl IndexError)
      else
        (case np_sum (if \<not> mm then None else Some 0) (take num_tape (drop idx final_res)) of
           Inl e \<Rightarrow> Inl e
         | Inr s \<Rightarrow>
             (case aggregate mm rest final_res (idx + num_tape) of
                Inl e \<Rightarrow> Inl e
              | Inr grads \<Rightarrow> Inr (s # grads))))"

text \<open>
  The end of \<^verbatim>\<open>processing_fn\<close>: the four return statements. \<open>grads_reorder\<close> is the
  double loop \<^verbatim>\<open>grads_reorder[i][j] = grads[j][i]\<close> followed by the conversion to a tuple
  of tuples.
\<close>

definition list_at :: "pyval list \<Rightarrow> nat \<Rightarrow> error + pyval" where
  "list_at xs i = (if i < length xs then Inr (xs ! i) else Inl IndexError)"

definition grads_reorder :: "tape \<Rightarrow> pyval list \<Rightarrow> error + pyval" where
  "grads_reorder t grads =
     (case collect (map (\<lambda>i.
              case collect (map (\<lambda>j.
                       case list_at grads j of Inl e \<Rightarrow> Inl e | Inr g \<Rightarrow> index g i)
                     [0..<length (trainable_params t)]) of
                Inl e \<Rightarrow> Inl e
              | Inr row \<Rightarrow> Inr (Seq row))
            [0..<length (measurements t)]) of
        Inl e \<Rightarrow> Inl e
      | Inr rows \<Rightarrow> Inr (Seq rows))"

definition shape_result :: "tape \<Rightarrow> pyval list \<Rightarrow> error + pyval" where
  "shape_result t grads =
     (if \<not> multi_measurements t \<and> \<not> multi_params t then list_at grads 0
      else if \<not> (multi_params t \<and> multi_measurements t) then
        (if multi_measurements t then
           (case list_at grads 0 of Inl e \<Rightarrow> Inl e | Inr g \<Rightarrow> to_tuple g)
         else Inr (Seq grads))
      else grads_reorder t grads)"

text \<open>
  The per-parameter list \<^verbatim>\<open>grads\<close>, and \<^verbatim>\<open>processing_fn(results)\<close> for the closure over
  \<^verbatim>\<open>tape\<close>, \<^verbatim>\<open>coeffs\<close> and \<^verbatim>\<open>gradient_data\<close>.
\<close>

definition compute_grads :: "tape \<Rightarrow> real list \<Rightarrow> nat list \<Rightarrow> pyval list \<Rightarrow> error + pyval list" where
  "compute_grads t coeffs gradient_data results =
     (case scale_results coeffs results of
        Inl e \<Rightarrow> Inl e
      | Inr scaled \<Rightarrow>
          (case project_probs t scaled of
             Inl e \<Rightarrow> Inl e
           | Inr final_res \<Rightarrow> aggregate (multi_measurements t) gradient_data final_res 0))"

definition processing_fn :: "tape \<Rightarrow> real list \<Rightarrow> nat list \<Rightarrow> pyval list \<Rightarrow> error + pyval" where
  "processing_fn t coeffs gradient_data results =
     (case compute_grads t coeffs gradient_data results of
        Inl e \<Rightarrow> Inl e
      | Inr grads \<Rightarrow> shape_result t grads)"

subsection \<open>The entry point\<close>

text \<open>
  What \<^verbatim>\<open>_hadamard_grad\<close> returns: the result of one of the two fast paths
  \<^verbatim>\<open>_no_trainable_grad_new\<close> and \<^verbatim>\<open>_all_zero_grad_new\<close>, which build no auxiliary circuit
  here, or the circuits with the data of their post-processing function.
\<close>

datatype outcome =
    NoTrainableGrad
  | AllZeroGrad
  | Gradient "quantum_script list" "real list" "nat list"

text \<open>
  The test \<^verbatim>\<open>device_wires and len(tape.wires) == len(device_wires)\<close>: \<^verbatim>\<open>None\<close> and the
  empty wire set are false.
\<close>

fun no_free_wire :: "tape \<Rightarrow> wire list option \<Rightarrow> bool" where
  "no_free_wire t None = False"
| "no_free_wire t (Some dw) = (dw \<noteq> [] \<and> length (wires t) = length dw)"

text \<open>
  The choice of the auxiliary wire: the collaborator when none is given; otherwise the
  two checks on \<^verbatim>\<open>aux_wire[0]\<close>. The membership test in \<^verbatim>\<open>device_wires\<close> raises a
  TypeError when \<^verbatim>\<open>device_wires\<close> is \<^verbatim>\<open>None\<close>.
\<close>

definition choose_aux_wire ::
  "collaborators \<Rightarrow> tape \<Rightarrow> wire list option \<Rightarrow> wire list option \<Rightarrow> error + wire list" where
  "choose_aux_wire ext t aux_wire device_wires =
     (case aux_wire of
        None \<Rightarrow> get_aux_wire ext t device_wires
      | Some aw \<Rightarrow>
          (case wire_at aw 0 of
             Inl e \<Rightarrow> Inl e
           | Inr w \<Rightarrow>
               if w \<in> set (wires t) then Inl AuxWireUsed
               else (case device_wires of
                       None \<Rightarrow> Inl TypeError
                     | Some dw \<Rightarrow> if w \<notin> set dw then Inl AuxWireNotOnDevice else Inr aw)))"

text \<open>
  \<^verbatim>\<open>_hadamard_grad(tape, argnum, shots, aux_wire, device_wires)\<close>; \<^verbatim>\<open>shots\<close> only reaches the
  fast paths and is left out.
\<close>

definition hadamard_grad ::
  "collaborators \<Rightarrow> tape \<Rightarrow> nat list option \<Rightarrow> wire list option \<Rightarrow> wire list option \<Rightarrow>
   error + outcome" where
  "hadamard_grad ext t argnum aux_wire device_wires =
     (if \<not> active_return ext then Inl NewReturnRequired
      else if \<exists>m \<in> set (measurements t). mp_kind m = VarianceMP then
        Inl VarianceNotImplemented
      else if \<exists>m \<in> set (measurements t). mp_kind m \<in> {StateMP, VnEntropyMP, MutualInfoMP} then
        Inl StateNotSupported
      else if argnum = None \<and> trainable_params t = [] then Inr NoTrainableGrad
      else
        (case grad_method_validation ext t of
           Inl e \<Rightarrow> Inl e
         | Inr diff_methods \<Rightarrow>
             if \<forall>g \<in> set diff_methods. g = ''0'' then Inr AllZeroGrad
             else
               (case choose_grad_methods ext diff_methods argnum of
                  Inl e \<Rightarrow> Inl e
                | Inr method_map \<Rightarrow>
                    (let argnum' = map fst (filter (\<lambda>(i, dm). dm = ''A'') method_map)
                     in if no_free_wire t device_wires then Inl NoFreeWire
                        else
                          (case choose_aux_wire ext t aux_wire device_wires of
                             Inl e \<Rightarrow> Inl e
                           | Inr aw \<Rightarrow>
                               (case expval_hadamard_grad ext t argnum' aw of
                                  Inl e \<Rightarrow> Inl e
                                | Inr (g_tapes, coeffs, gradient_data) \<Rightarrow>
                                    Inr (Gradient g_tapes coeffs gradient_data)))))))"

subsection \<open>The projection in the words of the spec\<close>

text \<open>
  What the spec asks of the projection: with the auxiliary outcome as the trailing axis,
  entry \<open>i\<close> of the result is the entry for auxiliary outcome 0 minus the entry for
  auxiliary outcome 1 of original outcome \<open>i\<close>. \<open>projected\<close> is that vector for the
  probability measurement \<open>p\<close> of the tape, and \<open>projected_entries\<close> replaces the entries
  of the probability measurements in a result of several measurements.
\<close>

definition aux_contrast :: "nat \<Rightarrow> real list \<Rightarrow> real list" where
  "aux_contrast n v = map (\<lambda>i. v ! (2 * i) - v ! (2 * i + 1)) [0..<2 ^ n]"

definition projected :: "tape \<Rightarrow> nat \<Rightarrow> pyval \<Rightarrow> pyval" where
  "projected t p x = A (Arr (map Num (aux_contrast (num_wires_probs t p) (flatten (to_array x)))))"


text \<open>
  An observable that is neither a tensor nor a product: what the factors of a tensor
  built by the library are, and what the spec's "original observable" is when it is
  not a tensor.
\<close>

fun plain_observable :: "observable \<Rightarrow> bool" where
  "plain_observable (Prod_obs a b) = False"
| "plain_observable (Tensor os) = False"
| "plain_observable ob = True"

subsection \<open>Example circuits\<close>

text \<open>
  Collaborators for the examples: RX, RY and RZ have the generator \<open>-0.5 P\<close>;
  \<^verbatim>\<open>rotations_and_diagonal_measurements\<close> returns no rotation and the measurements as they
  are, which is what it does for a single measurement (where an example has several
  measurements, only the coefficients and the emission counts of the transform are
  read, and they do not depend on it); every parameter is analytic;
  \<^verbatim>\<open>choose_grad_methods\<close> enumerates the methods or selects the given indices.
\<close>

definition example_collaborators :: collaborators where
  "example_collaborators =
     \<lparr>generator = (\<lambda>op. case op of
          Gate RX d ws \<Rightarrow> Inr ([- 1 / 2], [PauliX ws])
        | Gate RY d ws \<Rightarrow> Inr ([- 1 / 2], [PauliY ws])
        | Gate RZ d ws \<Rightarrow> Inr ([- 1 / 2], [PauliZ ws])
        | _ \<Rightarrow> Inl (External ''generator'')),
      rotations_and_diagonal_measurements = (\<lambda>s. Inr ([], script_measurements s)),
      active_return = True,
      grad_method_validation = (\<lambda>t. Inr (replicate (length (trainable_params t)) ''A'')),
      choose_grad_methods = (\<lambda>dm argnum. case argnum of
          None \<Rightarrow> Inr (enumerate 0 dm)
        | Some a \<Rightarrow> if list_all (\<lambda>i. i < length dm) a then Inr (map (\<lambda>i. (i, dm ! i)) a)
                    else Inl IndexError),
      get_aux_wire = (\<lambda>t dw. Inl (External ''aux wire''))\<rparr>"

text \<open>Hadamard, Rot(0.1, 0.2, 0.3), RX(0.4) on wire 0; the expectation of Z(0).\<close>

definition rot_tape :: tape where
  "rot_tape =
     \<lparr>operations =
        [Gate Hadamard [] [0], Gate Rot [1 / 10, 1 / 5, 3 / 10] [0], Gate RX [2 / 5] [0]],
      measurements = [Measurement ExpectationMP (Some (PauliZ [0])) []],
      trainable_params = [0, 1, 2, 3],
      wires = [0]\<rparr>"

text \<open>PhaseShift(0.1), Hadamard on wire 0; the expectation of Z(0).\<close>

definition phase_tape :: tape where
  "phase_tape =
     \<lparr>operations = [Gate PhaseShift [1 / 10] [0], Gate Hadamard [] [0]],
      measurements = [Measurement ExpectationMP (Some (PauliZ [0])) []],
      trainable_params = [0],
      wires = [0]\<rparr>"

text \<open>CRX(0.4) on control 0 and target 1; the probabilities of wire 1.\<close>

definition crx_probs_tape :: tape where
  "crx_probs_tape =
     \<lparr>operations = [Gate CRX [2 / 5] [0, 1]],
      measurements = [Measurement ProbabilityMP None [1]],
      trainable_params = [0],
      wires = [0, 1]\<rparr>"

text \<open>PhaseShift(0.1) on wire 0; the variance of Z(0).\<close>

definition variance_tape :: tape where
  "variance_tape =
     \<lparr>operations = [Gate PhaseShift [1 / 10] [0]],
      measurements = [Measurement VarianceMP (Some (PauliZ [0])) []],
      trainable_params = [0],
      wires = [0]\<rparr>"

text \<open>RX(0.1), RY(0.2) on wire 0; the expectation of Z(0) and the probabilities of wire 0.\<close>

definition two_measurement_tape :: tape where
  "two_measurement_tape =
     \<lparr>operations = [Gate RX [1 / 10] [0], Gate RY [1 / 5] [0]],
      measurements =
        [Measurement ExpectationMP (Some (PauliZ [0])) [], Measurement ProbabilityMP None [0]],
      trainable_params = [0, 1],
      wires = [0]\<rparr>"


section \<open>Properties\<close>

subsection \<open>The generator table\<close>

text \<open>
  C2. The lookup returns one term \<open>(-0.5, Z)\<close> on the gate's wires for PhaseShift and U1;
  for CRX, CRY and CRZ on control \<open>c\<close> and target \<open>t\<close> the two terms \<open>(-0.25, P(t))\<close> and
  \<open>(+0.25, Z(c) P(t))\<close> with \<open>P\<close> the Pauli of the rotation axis; for IsingXX, IsingYY and
  IsingZZ on wires \<open>a\<close>, \<open>b\<close> the one term \<open>(-0.5, P(a) P(b))\<close>.
\<close>

theorem get_generators_table:
  "get_generators native (Gate PhaseShift d ws) = Inr ([- 1 / 2], [PauliZ ws]) \<and>
   get_generators native (Gate U1 d ws) = Inr ([- 1 / 2], [PauliZ ws]) \<and>
   get_generators native (Gate CRX d [c, t]) =
     Inr ([- 1 / 4, 1 / 4], [PauliX [t], Prod_obs (PauliZ [c]) (PauliX [t])]) \<and>
   get_generators native (Gate CRY d [c, t]) =
     Inr ([- 1 / 4, 1 / 4], [PauliY [t], Prod_obs (PauliZ [c]) (PauliY [t])]) \<and>
   get_generators native (Gate CRZ d [c, t]) =
     Inr ([- 1 / 4, 1 / 4], [PauliZ [t], Prod_obs (PauliZ [c]) (PauliZ [t])]) \<and>
   get_generators native (Gate IsingXX d [a, b]) =
     Inr ([- 1 / 2], [Prod_obs (PauliX [a]) (PauliX [b])]) \<and>
   get_generators native (Gate IsingYY d [a, b]) =
     Inr ([- 1 / 2], [Prod_obs (PauliY [a]) (PauliY [b])]) \<and>
   get_generators native (Gate IsingZZ d [a, b]) =
     Inr ([- 1 / 2], [Prod_obs (PauliZ [a]) (PauliZ [b])])"
  by (simp add: controlled_rotation_terms_def ising_terms_def wire_at_def)

subsection \<open>Auxiliary facts\<close>

lemma collect_map_Inr: "collect (map Inr ys) = Inr ys"
  by (induction ys) auto

lemma collect_Inr_D: "collect xs = Inr ys \<Longrightarrow> xs = map Inr ys"
  by (induction xs arbitrary: ys) (auto split: sum.splits)

lemma collect_Inr_iff: "collect xs = Inr ys \<longleftrightarrow> xs = map Inr ys"
  using collect_map_Inr collect_Inr_D by metis

lemma par_info_owner:
  "(op, idx, p) \<in> set (par_info n ops) \<Longrightarrow>
   n \<le> idx \<and> idx - n < length ops \<and> ops ! (idx - n) = op \<and> p < length (op_data op)"
proof (induction ops arbitrary: n)
  case Nil
  then show ?case by simp
next
  case (Cons a ops)
  from Cons.prems consider "op = a \<and> idx = n \<and> p < length (op_data a)"
    | "(op, idx, p) \<in> set (par_info (Suc n) ops)"
    by auto
  then show ?case
  proof cases
    case 1
    then show ?thesis by simp
  next
    case 2
    from Cons.IH [OF 2] show ?thesis by (auto simp: Suc_diff_le)
  qed
qed

lemma get_operation_owner:
  assumes "get_operation t i = Inr (op, idx, p)"
  shows "idx < length (operations t) \<and> operations t ! idx = op \<and> p < length (op_data op)"
proof -
  from assms have "(op, idx, p) \<in> set (par_info 0 (operations t))"
    by (auto simp: get_operation_def Let_def split: if_splits dest: nth_mem)
  from par_info_owner [OF this] show ?thesis by simp
qed

lemma rot_compensation_other:
  "\<not> is_kind Rot op \<Longrightarrow> rot_compensation op p pre suf = Inr (pre, suf)"
  by (cases "(op, p, pre, suf)" rule: rot_compensation.cases) auto

lemma generator_loop_plain:
  "\<not> is_kind Rot op \<Longrightarrow>
   generator_loop ext t aux op p gens pre suf = collect (map (new_tape ext t aux pre suf) gens)"
  by (induction gens) (auto simp: rot_compensation_other split: sum.splits)

lemma differentiate_char:
  assumes d: "differentiate ext t aux i = Inr (cs, tps)"
    and g: "get_operation t i = Inr (op, idx, p)"
  shows "\<exists>gens pre suf.
           get_generators (generator ext) op = Inr (cs, gens) \<and>
           rot_compensation op p (take (Suc idx) (operations t)) (drop (Suc idx) (operations t))
             = Inr (pre, suf) \<and>
           map (new_tape ext t aux pre suf) gens = map Inr tps"
proof (cases "is_kind Rot op")
  case True
  then obtain d' ws where op: "op = Gate Rot d' ws" by (cases op) auto
  from d g show ?thesis
    by (auto simp: differentiate_def op simp del: rot_compensation.simps split: sum.splits)
next
  case False
  from d g False show ?thesis
    by (auto simp: differentiate_def generator_loop_plain rot_compensation_other
        collect_Inr_iff split: sum.splits)
qed

lemma new_tape_Inr:
  assumes "new_tape ext t aux pre suf g = Inr tp"
  shows "\<exists>rots ms.
          map (extend_measurement aux) (measurements t) = map Inr ms \<and>
          rotations_and_diagonal_measurements ext
            \<lparr>script_ops = pre @ hadamard_test aux g @ suf, script_measurements = ms\<rparr>
            = Inr (rots, script_measurements tp) \<and>
          script_ops tp = pre @ hadamard_test aux g @ suf @ rots"
  using assms by (auto simp: new_tape_def Let_def collect_Inr_iff split: sum.splits)

lemma param_loop_tapes:
  "param_loop ext t aux argnums is (g, c, gd) = Inr (g', c', gd') \<Longrightarrow>
   set g \<subseteq> set g' \<and>
   (\<forall>i \<in> set is. i \<in> set argnums \<longrightarrow>
      (\<exists>cs tps. differentiate ext t aux i = Inr (cs, tps) \<and> set tps \<subseteq> set g'))"
proof (induction "is" arbitrary: g c gd)
  case Nil
  then show ?case by simp
next
  case (Cons i "is")
  show ?case
  proof (cases "i \<in> set argnums")
    case False
    with Cons.prems have "param_loop ext t aux argnums is (g, c, gd @ [0]) = Inr (g', c', gd')"
      by simp
    from Cons.IH [OF this] False show ?thesis by auto
  next
    case True
    with Cons.prems obtain cs tps where d: "differentiate ext t aux i = Inr (cs, tps)"
      and r: "param_loop ext t aux argnums is (g @ tps, c @ cs, gd @ [length tps]) = Inr (g', c', gd')"
      by (auto split: sum.splits)
    from Cons.IH [OF r] d show ?thesis by auto
  qed
qed


lemma rot_compensation_keeps:
  assumes "idx < length ops" and "ops ! idx = op"
    and "rot_compensation op p (take (Suc idx) ops) (drop (Suc idx) ops) = Inr (pre, suf)"
  shows "(\<not> is_kind Rot op \<or> 1 < p \<longrightarrow>
            pre = take idx ops @ [op] \<and> suf = drop (Suc idx) ops) \<and>
         (is_kind Rot op \<and> p = 0 \<longrightarrow>
            pre = take idx ops \<and> suf = [op] @ drop (Suc idx) ops) \<and>
         (is_kind Rot op \<and> p = 1 \<longrightarrow>
            (\<exists>d ws. op = Gate Rot d ws \<and>
               pre = take idx ops @ [op, Gate RZ [- (d ! 2)] ws, Gate RX [pi / 2] ws] \<and>
               suf = [Gate RX [- pi / 2] ws, Gate RZ [d ! 2] ws] @ drop (Suc idx) ops))"
proof (cases "is_kind Rot op")
  case False
  with assms show ?thesis
    by (auto simp: rot_compensation_other take_Suc_conv_app_nth)
next
  case True
  then obtain d ws where op: "op = Gate Rot d ws" by (cases op) auto
  have tk: "take (Suc idx) ops = take idx ops @ [op]"
    using assms(1,2) by (simp add: take_Suc_conv_app_nth)
  from assms(3) show ?thesis
    unfolding tk by (auto simp: op split: if_splits)
qed

lemma differentiate_get_operation:
  "differentiate ext t aux i = Inr r \<Longrightarrow> \<exists>op idx p. get_operation t i = Inr (op, idx, p)"
  by (auto simp: differentiate_def split: sum.splits)

lemma expval_hadamard_grad_differentiated:
  assumes "expval_hadamard_grad ext t argnum aux = Inr (g_tapes, coeffs, gradient_data)"
    and "i < length (trainable_params t)"
    and "i \<in> set (if argnum = [] then trainable_params t else argnum)"
  shows "\<exists>cs tps. differentiate ext t aux i = Inr (cs, tps) \<and> set tps \<subseteq> set g_tapes"
proof -
  let ?argnums = "if argnum = [] then trainable_params t else argnum"
  from assms(1) have
    "param_loop ext t aux ?argnums [0..<length (trainable_params t)] ([], [], [])
       = Inr (g_tapes, coeffs, gradient_data)"
    by (simp add: expval_hadamard_grad_def Let_def)
  from param_loop_tapes [OF this] assms(2,3) show ?thesis by simp
qed

subsection \<open>The split at the owning gate\<close>

text \<open>
  C1, as the code has it. For every differentiated trainable parameter the gate sequence
  is split just after the owning gate, and the owning gate is not removed: every
  emitted circuit is a list \<open>pre\<close>, the Hadamard test, a list \<open>suf\<close> and the rotations,
  where \<open>pre\<close> is the gates up to and including the owning gate and \<open>suf\<close> the gates
  strictly after it. For the first parameter of a Rot gate the owning gate is instead
  the head of \<open>suf\<close>, and for its second parameter \<open>RZ(-data[2]), RX(pi/2)\<close> follow it in
  \<open>pre\<close> and \<open>RX(-pi/2), RZ(data[2])\<close> open \<open>suf\<close>.
\<close>

theorem owning_gate_kept:
  assumes "expval_hadamard_grad ext t argnum aux_wire = Inr (g_tapes, coeffs, gradient_data)"
    and "i < length (trainable_params t)"
    and "i \<in> set (if argnum = [] then trainable_params t else argnum)"
  shows "\<exists>op idx p cs tps.
      get_operation t i = Inr (op, idx, p) \<and>
      idx < length (operations t) \<and> operations t ! idx = op \<and>
      differentiate ext t aux_wire i = Inr (cs, tps) \<and> set tps \<subseteq> set g_tapes \<and>
      (\<forall>tp \<in> set tps. \<exists>pre suf gen rots.
          script_ops tp =
            pre @ [Gate Hadamard [] aux_wire, Controlled gen aux_wire, Gate Hadamard [] aux_wire]
              @ suf @ rots \<and>
          (\<not> is_kind Rot op \<or> 1 < p \<longrightarrow>
             pre = take idx (operations t) @ [op] \<and> suf = drop (Suc idx) (operations t)) \<and>
          (is_kind Rot op \<and> p = 0 \<longrightarrow>
             pre = take idx (operations t) \<and> suf = [op] @ drop (Suc idx) (operations t)) \<and>
          (is_kind Rot op \<and> p = 1 \<longrightarrow>
             (\<exists>d ws. op = Gate Rot d ws \<and>
                pre = take idx (operations t) @
                        [op, Gate RZ [- (d ! 2)] ws, Gate RX [pi / 2] ws] \<and>
                suf = [Gate RX [- pi / 2] ws, Gate RZ [d ! 2] ws] @
                        drop (Suc idx) (operations t))))"
proof -
  from expval_hadamard_grad_differentiated [OF assms] obtain cs tps
    where d: "differentiate ext t aux_wire i = Inr (cs, tps)" and sub: "set tps \<subseteq> set g_tapes"
    by blast
  from differentiate_get_operation [OF d] obtain op idx p
    where g: "get_operation t i = Inr (op, idx, p)" by blast
  from get_operation_owner [OF g]
  have own: "idx < length (operations t)" "operations t ! idx = op" by simp_all
  from differentiate_char [OF d g] obtain gens pre suf
    where rc: "rot_compensation op p (take (Suc idx) (operations t))
                 (drop (Suc idx) (operations t)) = Inr (pre, suf)"
      and mp: "map (new_tape ext t aux_wire pre suf) gens = map Inr tps"
    by blast
  note keeps = rot_compensation_keeps [OF own rc]
  have "\<exists>pre suf gen rots.
          script_ops tp =
            pre @ [Gate Hadamard [] aux_wire, Controlled gen aux_wire, Gate Hadamard [] aux_wire]
              @ suf @ rots \<and>
          (\<not> is_kind Rot op \<or> 1 < p \<longrightarrow>
             pre = take idx (operations t) @ [op] \<and> suf = drop (Suc idx) (operations t)) \<and>
          (is_kind Rot op \<and> p = 0 \<longrightarrow>
             pre = take idx (operations t) \<and> suf = [op] @ drop (Suc idx) (operations t)) \<and>
          (is_kind Rot op \<and> p = 1 \<longrightarrow>
             (\<exists>d ws. op = Gate Rot d ws \<and>
                pre = take idx (operations t) @
                        [op, Gate RZ [- (d ! 2)] ws, Gate RX [pi / 2] ws] \<and>
                suf = [Gate RX [- pi / 2] ws, Gate RZ [d ! 2] ws] @
                        drop (Suc idx) (operations t)))"
    if "tp \<in> set tps" for tp
  proof -
    from that have "Inr tp \<in> set (map (new_tape ext t aux_wire pre suf) gens)"
      unfolding mp by simp
    then obtain gen where "new_tape ext t aux_wire pre suf gen = Inr tp" by auto
    from new_tape_Inr [OF this] obtain rots where
      "script_ops tp =
         pre @ [Gate Hadamard [] aux_wire, Controlled gen aux_wire, Gate Hadamard [] aux_wire]
           @ suf @ rots"
      by (auto simp: hadamard_test_def)
    with keeps show ?thesis by blast
  qed
  then have all: "\<forall>tp \<in> set tps. \<exists>pre suf gen rots.
          script_ops tp =
            pre @ [Gate Hadamard [] aux_wire, Controlled gen aux_wire, Gate Hadamard [] aux_wire]
              @ suf @ rots \<and>
          (\<not> is_kind Rot op \<or> 1 < p \<longrightarrow>
             pre = take idx (operations t) @ [op] \<and> suf = drop (Suc idx) (operations t)) \<and>
          (is_kind Rot op \<and> p = 0 \<longrightarrow>
             pre = take idx (operations t) \<and> suf = [op] @ drop (Suc idx) (operations t)) \<and>
          (is_kind Rot op \<and> p = 1 \<longrightarrow>
             (\<exists>d ws. op = Gate Rot d ws \<and>
                pre = take idx (operations t) @
                        [op, Gate RZ [- (d ! 2)] ws, Gate RX [pi / 2] ws] \<and>
                suf = [Gate RX [- pi / 2] ws, Gate RZ [d ! 2] ws] @
                        drop (Suc idx) (operations t)))"
    by blast
  show ?thesis
    apply (rule exI [of _ op], rule exI [of _ idx], rule exI [of _ p])
    apply (rule exI [of _ cs], rule exI [of _ tps])
    using g own d sub all by simp
qed

lemmas example_defs = expval_hadamard_grad_def differentiate_def get_operation_def
  new_tape_def hadamard_test_def extend_measurement_def make_tensor_def obs_factors_def
  meas_wires_def example_collaborators_def Let_def

text \<open>
  The claim as it is worded, with the owning gate removed, fails on the PhaseShift
  circuit: the emitted gate list starts with the PhaseShift gate and differs from the
  gates before it, the Hadamard test and the gates after it.
\<close>

theorem owning_gate_removed_counterexample:
  "get_operation phase_tape 0 = Inr (Gate PhaseShift [1 / 10] [0], 0, 0) \<and>
   expval_hadamard_grad example_collaborators phase_tape [0] [1] =
     Inr ([\<lparr>script_ops =
               [Gate PhaseShift [1 / 10] [0],
                Gate Hadamard [] [1], Controlled (PauliZ [0]) [1], Gate Hadamard [] [1],
                Gate Hadamard [] [0]],
             script_measurements =
               [Measurement ExpectationMP (Some (Tensor [PauliZ [0], PauliY [1]])) []]\<rparr>],
          [- 1 / 2], [1]) \<and>
   [Gate PhaseShift [1 / 10] [0],
    Gate Hadamard [] [1], Controlled (PauliZ [0]) [1], Gate Hadamard [] [1],
    Gate Hadamard [] [0]] \<noteq>
   take 0 (operations phase_tape) @
     [Gate Hadamard [] [1], Controlled (PauliZ [0]) [1], Gate Hadamard [] [1]] @
     drop 1 (operations phase_tape)"
  by (simp add: example_defs phase_tape_def)




text \<open>
  The theorem at the PhaseShift circuit and at the first and the second parameter of
  the Rot gate of the example.
\<close>

theorem owning_gate_kept_witness:
  "(expval_hadamard_grad example_collaborators phase_tape [0] [1] =
      Inr ([\<lparr>script_ops =
               [Gate PhaseShift [1 / 10] [0],
                Gate Hadamard [] [1], Controlled (PauliZ [0]) [1], Gate Hadamard [] [1],
                Gate Hadamard [] [0]],
             script_measurements =
               [Measurement ExpectationMP (Some (Tensor [PauliZ [0], PauliY [1]])) []]\<rparr>],
          [- 1 / 2], [1]) \<and>
    expval_hadamard_grad example_collaborators rot_tape [0] [1] =
      Inr ([\<lparr>script_ops =
               [Gate Hadamard [] [0],
                Gate Hadamard [] [1], Controlled (PauliZ [0]) [1], Gate Hadamard [] [1],
                Gate Rot [1 / 10, 1 / 5, 3 / 10] [0], Gate RX [2 / 5] [0]],
             script_measurements =
               [Measurement ExpectationMP (Some (Tensor [PauliZ [0], PauliY [1]])) []]\<rparr>],
          [- 1 / 2], [1, 0, 0, 0]) \<and>
    expval_hadamard_grad example_collaborators rot_tape [1] [1] =
      Inr ([\<lparr>script_ops =
               [Gate Hadamard [] [0], Gate Rot [1 / 10, 1 / 5, 3 / 10] [0],
                Gate RZ [- (3 / 10)] [0], Gate RX [pi / 2] [0],
                Gate Hadamard [] [1], Controlled (PauliZ [0]) [1], Gate Hadamard [] [1],
                Gate RX [- pi / 2] [0], Gate RZ [3 / 10] [0], Gate RX [2 / 5] [0]],
             script_measurements =
               [Measurement ExpectationMP (Some (Tensor [PauliZ [0], PauliY [1]])) []]\<rparr>],
          [- 1 / 2], [0, 1, 0, 0]) \<and>
    0 < length (trainable_params phase_tape) \<and> 1 < length (trainable_params rot_tape)) \<and>
   (\<exists>op idx p cs tps pre suf gen rots.
      get_operation phase_tape 0 = Inr (op, idx, p) \<and>
      differentiate example_collaborators phase_tape [1] 0 = Inr (cs, tps) \<and>
      script_ops (tps ! 0) = pre @ [Gate Hadamard [] [1], Controlled gen [1], Gate Hadamard [] [1]]
                               @ suf @ rots \<and>
      pre = [Gate PhaseShift [1 / 10] [0]] \<and> suf = [Gate Hadamard [] [0]]) \<and>
   (\<exists>op idx p cs tps pre suf gen rots.
      get_operation rot_tape 0 = Inr (op, idx, p) \<and>
      differentiate example_collaborators rot_tape [1] 0 = Inr (cs, tps) \<and>
      script_ops (tps ! 0) = pre @ [Gate Hadamard [] [1], Controlled gen [1], Gate Hadamard [] [1]]
                               @ suf @ rots \<and>
      pre = [Gate Hadamard [] [0]] \<and>
      suf = [Gate Rot [1 / 10, 1 / 5, 3 / 10] [0], Gate RX [2 / 5] [0]]) \<and>
   (\<exists>op idx p cs tps pre suf gen rots.
      get_operation rot_tape 1 = Inr (op, idx, p) \<and>
      differentiate example_collaborators rot_tape [1] 1 = Inr (cs, tps) \<and>
      script_ops (tps ! 0) = pre @ [Gate Hadamard [] [1], Controlled gen [1], Gate Hadamard [] [1]]
                               @ suf @ rots \<and>
      pre = [Gate Hadamard [] [0], Gate Rot [1 / 10, 1 / 5, 3 / 10] [0],
             Gate RZ [- (3 / 10)] [0], Gate RX [pi / 2] [0]] \<and>
      suf = [Gate RX [- pi / 2] [0], Gate RZ [3 / 10] [0], Gate RX [2 / 5] [0]])"
proof -
  let ?PH = "\<lparr>script_ops =
               [Gate PhaseShift [1 / 10] [0],
                Gate Hadamard [] [1], Controlled (PauliZ [0]) [1], Gate Hadamard [] [1],
                Gate Hadamard [] [0]],
             script_measurements =
               [Measurement ExpectationMP (Some (Tensor [PauliZ [0], PauliY [1]])) []]\<rparr>"
  let ?R0 = "\<lparr>script_ops =
               [Gate Hadamard [] [0],
                Gate Hadamard [] [1], Controlled (PauliZ [0]) [1], Gate Hadamard [] [1],
                Gate Rot [1 / 10, 1 / 5, 3 / 10] [0], Gate RX [2 / 5] [0]],
             script_measurements =
               [Measurement ExpectationMP (Some (Tensor [PauliZ [0], PauliY [1]])) []]\<rparr>"
  let ?R1 = "\<lparr>script_ops =
               [Gate Hadamard [] [0], Gate Rot [1 / 10, 1 / 5, 3 / 10] [0],
                Gate RZ [- (3 / 10)] [0], Gate RX [pi / 2] [0],
                Gate Hadamard [] [1], Controlled (PauliZ [0]) [1], Gate Hadamard [] [1],
                Gate RX [- pi / 2] [0], Gate RZ [3 / 10] [0], Gate RX [2 / 5] [0]],
             script_measurements =
               [Measurement ExpectationMP (Some (Tensor [PauliZ [0], PauliY [1]])) []]\<rparr>"
  have hP: "expval_hadamard_grad example_collaborators phase_tape [0] [1]
              = Inr ([?PH], [- 1 / 2], [1])"
    by (simp add: example_defs phase_tape_def)
  have h0: "expval_hadamard_grad example_collaborators rot_tape [0] [1]
              = Inr ([?R0], [- 1 / 2], [1, 0, 0, 0])"
    by (simp add: example_defs rot_tape_def)
  have h1: "expval_hadamard_grad example_collaborators rot_tape [1] [1]
              = Inr ([?R1], [- 1 / 2], [0, 1, 0, 0])"
    by (simp add: example_defs rot_tape_def)
  have lP: "0 < length (trainable_params phase_tape)"
    by (simp add: phase_tape_def)
  have l0: "0 < length (trainable_params rot_tape)"
    and l1: "1 < length (trainable_params rot_tape)"
    by (simp_all add: rot_tape_def)
  have m0: "0 \<in> set (if [0] = [] then trainable_params phase_tape else [0::nat])"
    "0 \<in> set (if [0] = [] then trainable_params rot_tape else [0::nat])"
    "1 \<in> set (if [1] = [] then trainable_params rot_tape else [1::nat])"
    by simp_all
  have gP: "get_operation phase_tape 0 = Inr (Gate PhaseShift [1 / 10] [0], 0, 0)"
    by (simp add: get_operation_def phase_tape_def)
  have g0: "get_operation rot_tape 0 = Inr (Gate Rot [1 / 10, 1 / 5, 3 / 10] [0], 1, 0)"
    and g1: "get_operation rot_tape 1 = Inr (Gate Rot [1 / 10, 1 / 5, 3 / 10] [0], 1, 1)"
    by (simp_all add: get_operation_def rot_tape_def)
  have opsP: "operations phase_tape = [Gate PhaseShift [1 / 10] [0], Gate Hadamard [] [0]]"
    by (simp add: phase_tape_def)
  have opsR: "operations rot_tape =
      [Gate Hadamard [] [0], Gate Rot [1 / 10, 1 / 5, 3 / 10] [0], Gate RX [2 / 5] [0]]"
    by (simp add: rot_tape_def)
  have cP: "\<exists>op idx p cs tps pre suf gen rots.
      get_operation phase_tape 0 = Inr (op, idx, p) \<and>
      differentiate example_collaborators phase_tape [1] 0 = Inr (cs, tps) \<and>
      script_ops (tps ! 0) = pre @ [Gate Hadamard [] [1], Controlled gen [1], Gate Hadamard [] [1]]
                               @ suf @ rots \<and>
      pre = [Gate PhaseShift [1 / 10] [0]] \<and> suf = [Gate Hadamard [] [0]]"
  proof -
    from owning_gate_kept [OF hP lP m0(1)] obtain op idx p cs tps where
      a: "get_operation phase_tape 0 = Inr (op, idx, p)"
      and b: "differentiate example_collaborators phase_tape [1] 0 = Inr (cs, tps)"
      and c: "\<forall>tp \<in> set tps. \<exists>pre suf gen rots.
          script_ops tp =
            pre @ [Gate Hadamard [] [1], Controlled gen [1], Gate Hadamard [] [1]] @ suf @ rots \<and>
          (\<not> is_kind Rot op \<or> 1 < p \<longrightarrow>
             pre = take idx (operations phase_tape) @ [op] \<and>
             suf = drop (Suc idx) (operations phase_tape)) \<and>
          (is_kind Rot op \<and> p = 0 \<longrightarrow>
             pre = take idx (operations phase_tape) \<and>
             suf = [op] @ drop (Suc idx) (operations phase_tape)) \<and>
          (is_kind Rot op \<and> p = 1 \<longrightarrow>
             (\<exists>d ws. op = Gate Rot d ws \<and>
                pre = take idx (operations phase_tape) @
                        [op, Gate RZ [- (d ! 2)] ws, Gate RX [pi / 2] ws] \<and>
                suf = [Gate RX [- pi / 2] ws, Gate RZ [d ! 2] ws] @
                        drop (Suc idx) (operations phase_tape)))"
      by blast
    from a gP have e: "op = Gate PhaseShift [1 / 10] [0]" "idx = 0" "p = 0" by simp_all
    have "differentiate example_collaborators phase_tape [1] 0 = Inr ([- 1 / 2], [?PH])"
      by (simp add: example_defs phase_tape_def)
    with b have mem: "tps ! 0 \<in> set tps" by auto
    from c [rule_format, OF mem] obtain pre suf gen rots where
      x: "script_ops (tps ! 0) =
            pre @ [Gate Hadamard [] [1], Controlled gen [1], Gate Hadamard [] [1]] @ suf @ rots \<and>
          (\<not> is_kind Rot op \<or> 1 < p \<longrightarrow>
             pre = take idx (operations phase_tape) @ [op] \<and>
             suf = drop (Suc idx) (operations phase_tape)) \<and>
          (is_kind Rot op \<and> p = 0 \<longrightarrow>
             pre = take idx (operations phase_tape) \<and>
             suf = [op] @ drop (Suc idx) (operations phase_tape)) \<and>
          (is_kind Rot op \<and> p = 1 \<longrightarrow>
             (\<exists>d ws. op = Gate Rot d ws \<and>
                pre = take idx (operations phase_tape) @
                        [op, Gate RZ [- (d ! 2)] ws, Gate RX [pi / 2] ws] \<and>
                suf = [Gate RX [- pi / 2] ws, Gate RZ [d ! 2] ws] @
                        drop (Suc idx) (operations phase_tape)))"
      by blast
    from x e have y: "pre = [Gate PhaseShift [1 / 10] [0]]" "suf = [Gate Hadamard [] [0]]"
      by (simp_all add: opsP)
    from x have z: "script_ops (tps ! 0) =
        pre @ [Gate Hadamard [] [1], Controlled gen [1], Gate Hadamard [] [1]] @ suf @ rots"
      by (rule conjunct1)
    from a b z y show ?thesis by blast
  qed
  have c0: "\<exists>op idx p cs tps pre suf gen rots.
      get_operation rot_tape 0 = Inr (op, idx, p) \<and>
      differentiate example_collaborators rot_tape [1] 0 = Inr (cs, tps) \<and>
      script_ops (tps ! 0) = pre @ [Gate Hadamard [] [1], Controlled gen [1], Gate Hadamard [] [1]]
                               @ suf @ rots \<and>
      pre = [Gate Hadamard [] [0]] \<and>
      suf = [Gate Rot [1 / 10, 1 / 5, 3 / 10] [0], Gate RX [2 / 5] [0]]"
  proof -
    from owning_gate_kept [OF h0 l0 m0(2)] obtain op idx p cs tps where
      a: "get_operation rot_tape 0 = Inr (op, idx, p)"
      and b: "differentiate example_collaborators rot_tape [1] 0 = Inr (cs, tps)"
      and c: "\<forall>tp \<in> set tps. \<exists>pre suf gen rots.
          script_ops tp =
            pre @ [Gate Hadamard [] [1], Controlled gen [1], Gate Hadamard [] [1]] @ suf @ rots \<and>
          (\<not> is_kind Rot op \<or> 1 < p \<longrightarrow>
             pre = take idx (operations rot_tape) @ [op] \<and>
             suf = drop (Suc idx) (operations rot_tape)) \<and>
          (is_kind Rot op \<and> p = 0 \<longrightarrow>
             pre = take idx (operations rot_tape) \<and>
             suf = [op] @ drop (Suc idx) (operations rot_tape)) \<and>
          (is_kind Rot op \<and> p = 1 \<longrightarrow>
             (\<exists>d ws. op = Gate Rot d ws \<and>
                pre = take idx (operations rot_tape) @
                        [op, Gate RZ [- (d ! 2)] ws, Gate RX [pi / 2] ws] \<and>
                suf = [Gate RX [- pi / 2] ws, Gate RZ [d ! 2] ws] @
                        drop (Suc idx) (operations rot_tape)))"
      by blast
    from a g0 have e: "op = Gate Rot [1 / 10, 1 / 5, 3 / 10] [0]" "idx = 1" "p = 0"
      by simp_all
    have "differentiate example_collaborators rot_tape [1] 0 = Inr ([- 1 / 2], [?R0])"
      by (simp add: example_defs rot_tape_def)
    with b have mem: "tps ! 0 \<in> set tps" by auto
    from c [rule_format, OF mem] obtain pre suf gen rots where
      x: "script_ops (tps ! 0) =
            pre @ [Gate Hadamard [] [1], Controlled gen [1], Gate Hadamard [] [1]] @ suf @ rots \<and>
          (\<not> is_kind Rot op \<or> 1 < p \<longrightarrow>
             pre = take idx (operations rot_tape) @ [op] \<and>
             suf = drop (Suc idx) (operations rot_tape)) \<and>
          (is_kind Rot op \<and> p = 0 \<longrightarrow>
             pre = take idx (operations rot_tape) \<and>
             suf = [op] @ drop (Suc idx) (operations rot_tape)) \<and>
          (is_kind Rot op \<and> p = 1 \<longrightarrow>
             (\<exists>d ws. op = Gate Rot d ws \<and>
                pre = take idx (operations rot_tape) @
                        [op, Gate RZ [- (d ! 2)] ws, Gate RX [pi / 2] ws] \<and>
                suf = [Gate RX [- pi / 2] ws, Gate RZ [d ! 2] ws] @
                        drop (Suc idx) (operations rot_tape)))"
      by blast
    from x e have y: "pre = [Gate Hadamard [] [0]]"
      "suf = [Gate Rot [1 / 10, 1 / 5, 3 / 10] [0], Gate RX [2 / 5] [0]]"
      by (simp_all add: opsR)
    from x have z: "script_ops (tps ! 0) =
        pre @ [Gate Hadamard [] [1], Controlled gen [1], Gate Hadamard [] [1]] @ suf @ rots"
      by (rule conjunct1)
    from a b z y show ?thesis by blast
  qed
  have c1: "\<exists>op idx p cs tps pre suf gen rots.
      get_operation rot_tape 1 = Inr (op, idx, p) \<and>
      differentiate example_collaborators rot_tape [1] 1 = Inr (cs, tps) \<and>
      script_ops (tps ! 0) = pre @ [Gate Hadamard [] [1], Controlled gen [1], Gate Hadamard [] [1]]
                               @ suf @ rots \<and>
      pre = [Gate Hadamard [] [0], Gate Rot [1 / 10, 1 / 5, 3 / 10] [0],
             Gate RZ [- (3 / 10)] [0], Gate RX [pi / 2] [0]] \<and>
      suf = [Gate RX [- pi / 2] [0], Gate RZ [3 / 10] [0], Gate RX [2 / 5] [0]]"
  proof -
    from owning_gate_kept [OF h1 l1 m0(3)] obtain op idx p cs tps where
      a: "get_operation rot_tape 1 = Inr (op, idx, p)"
      and b: "differentiate example_collaborators rot_tape [1] 1 = Inr (cs, tps)"
      and c: "\<forall>tp \<in> set tps. \<exists>pre suf gen rots.
          script_ops tp =
            pre @ [Gate Hadamard [] [1], Controlled gen [1], Gate Hadamard [] [1]] @ suf @ rots \<and>
          (\<not> is_kind Rot op \<or> 1 < p \<longrightarrow>
             pre = take idx (operations rot_tape) @ [op] \<and>
             suf = drop (Suc idx) (operations rot_tape)) \<and>
          (is_kind Rot op \<and> p = 0 \<longrightarrow>
             pre = take idx (operations rot_tape) \<and>
             suf = [op] @ drop (Suc idx) (operations rot_tape)) \<and>
          (is_kind Rot op \<and> p = 1 \<longrightarrow>
             (\<exists>d ws. op = Gate Rot d ws \<and>
                pre = take idx (operations rot_tape) @
                        [op, Gate RZ [- (d ! 2)] ws, Gate RX [pi / 2] ws] \<and>
                suf = [Gate RX [- pi / 2] ws, Gate RZ [d ! 2] ws] @
                        drop (Suc idx) (operations rot_tape)))"
      by blast
    from a g1 have e: "op = Gate Rot [1 / 10, 1 / 5, 3 / 10] [0]" "idx = 1" "p = 1"
      by simp_all
    have "differentiate example_collaborators rot_tape [1] 1 = Inr ([- 1 / 2], [?R1])"
      by (simp add: example_defs rot_tape_def)
    with b have mem: "tps ! 0 \<in> set tps" by auto
    from c [rule_format, OF mem] obtain pre suf gen rots where
      x: "script_ops (tps ! 0) =
            pre @ [Gate Hadamard [] [1], Controlled gen [1], Gate Hadamard [] [1]] @ suf @ rots \<and>
          (\<not> is_kind Rot op \<or> 1 < p \<longrightarrow>
             pre = take idx (operations rot_tape) @ [op] \<and>
             suf = drop (Suc idx) (operations rot_tape)) \<and>
          (is_kind Rot op \<and> p = 0 \<longrightarrow>
             pre = take idx (operations rot_tape) \<and>
             suf = [op] @ drop (Suc idx) (operations rot_tape)) \<and>
          (is_kind Rot op \<and> p = 1 \<longrightarrow>
             (\<exists>d ws. op = Gate Rot d ws \<and>
                pre = take idx (operations rot_tape) @
                        [op, Gate RZ [- (d ! 2)] ws, Gate RX [pi / 2] ws] \<and>
                suf = [Gate RX [- pi / 2] ws, Gate RZ [d ! 2] ws] @
                        drop (Suc idx) (operations rot_tape)))"
      by blast
    from x e have y:
      "pre = [Gate Hadamard [] [0], Gate Rot [1 / 10, 1 / 5, 3 / 10] [0],
              Gate RZ [- (3 / 10)] [0], Gate RX [pi / 2] [0]]"
      "suf = [Gate RX [- pi / 2] [0], Gate RZ [3 / 10] [0], Gate RX [2 / 5] [0]]"
      by (simp_all add: opsR)
    from x have z: "script_ops (tps ! 0) =
        pre @ [Gate Hadamard [] [1], Controlled gen [1], Gate Hadamard [] [1]] @ suf @ rots"
      by (rule conjunct1)
    from a b z y show ?thesis by blast
  qed
  from hP h0 h1 lP l1 cP c0 c1 show ?thesis by blast
qed

subsection \<open>The Rot gate\<close>

text \<open>
  C3. For a Rot gate with three parameters the lookup yields the one term \<open>(-0.5, Z)\<close> on
  the gate's wires, and the gate is the last one of the list in front of the Hadamard
  test. For its first parameter the circuit is built with the gate moved from the end
  of that list to the head of the list behind; for its second parameter with
  \<open>RZ(-data[2]), RX(pi/2)\<close> appended in front and \<open>RX(-pi/2), RZ(data[2])\<close> put at the head
  behind; for its third parameter with the two lists as they are.
\<close>

theorem rot_compensation_slots:
  assumes "get_operation t i = Inr (Gate Rot d ws, idx, p)" and "length d = 3"
  shows "get_generators (generator ext) (Gate Rot d ws) = Inr ([- 1 / 2], [PauliZ ws]) \<and>
    take (Suc idx) (operations t) = take idx (operations t) @ [Gate Rot d ws] \<and>
    (p = 0 \<longrightarrow>
       differentiate ext t aux_wire i =
         (case new_tape ext t aux_wire
                 (take idx (operations t))
                 ([Gate Rot d ws] @ drop (Suc idx) (operations t))
                 (PauliZ ws) of
            Inl e \<Rightarrow> Inl e | Inr tp \<Rightarrow> Inr ([- 1 / 2], [tp]))) \<and>
    (p = 1 \<longrightarrow>
       differentiate ext t aux_wire i =
         (case new_tape ext t aux_wire
                 (take (Suc idx) (operations t) @
                    [Gate RZ [- (d ! 2)] ws, Gate RX [pi / 2] ws])
                 ([Gate RX [- pi / 2] ws, Gate RZ [d ! 2] ws] @
                    drop (Suc idx) (operations t))
                 (PauliZ ws) of
            Inl e \<Rightarrow> Inl e | Inr tp \<Rightarrow> Inr ([- 1 / 2], [tp]))) \<and>
    (p = 2 \<longrightarrow>
       differentiate ext t aux_wire i =
         (case new_tape ext t aux_wire
                 (take (Suc idx) (operations t))
                 (drop (Suc idx) (operations t))
                 (PauliZ ws) of
            Inl e \<Rightarrow> Inl e | Inr tp \<Rightarrow> Inr ([- 1 / 2], [tp])))"
proof -
  from get_operation_owner [OF assms(1)]
  have own: "idx < length (operations t)" "operations t ! idx = Gate Rot d ws" by simp_all
  have tk: "take (Suc idx) (operations t) = take idx (operations t) @ [Gate Rot d ws]"
    using own by (simp add: take_Suc_conv_app_nth)
  have p0: "p = 0 \<Longrightarrow> differentiate ext t aux_wire i =
         (case new_tape ext t aux_wire
                 (take idx (operations t))
                 ([Gate Rot d ws] @ drop (Suc idx) (operations t))
                 (PauliZ ws) of
            Inl e \<Rightarrow> Inl e | Inr tp \<Rightarrow> Inr ([- 1 / 2], [tp]))"
    using assms(1) by (simp add: differentiate_def tk split: sum.splits)
  have p1: "p = 1 \<Longrightarrow> differentiate ext t aux_wire i =
         (case new_tape ext t aux_wire
                 (take (Suc idx) (operations t) @
                    [Gate RZ [- (d ! 2)] ws, Gate RX [pi / 2] ws])
                 ([Gate RX [- pi / 2] ws, Gate RZ [d ! 2] ws] @
                    drop (Suc idx) (operations t))
                 (PauliZ ws) of
            Inl e \<Rightarrow> Inl e | Inr tp \<Rightarrow> Inr ([- 1 / 2], [tp]))"
    using assms by (simp add: differentiate_def split: sum.splits)
  have p2: "p = 2 \<Longrightarrow> differentiate ext t aux_wire i =
         (case new_tape ext t aux_wire
                 (take (Suc idx) (operations t))
                 (drop (Suc idx) (operations t))
                 (PauliZ ws) of
            Inl e \<Rightarrow> Inl e | Inr tp \<Rightarrow> Inr ([- 1 / 2], [tp]))"
    using assms(1) by (simp add: differentiate_def split: sum.splits)
  from tk p0 p1 p2 show ?thesis by simp
qed


text \<open>The three circuits of the Rot gate of the example.\<close>

theorem rot_compensation_slots_witness:
  "(get_operation rot_tape 0 = Inr (Gate Rot [1 / 10, 1 / 5, 3 / 10] [0], 1, 0) \<and>
    get_operation rot_tape 1 = Inr (Gate Rot [1 / 10, 1 / 5, 3 / 10] [0], 1, 1) \<and>
    get_operation rot_tape 2 = Inr (Gate Rot [1 / 10, 1 / 5, 3 / 10] [0], 1, 2) \<and>
    length [1 / 10, 1 / 5, 3 / 10 :: real] = 3) \<and>
   differentiate example_collaborators rot_tape [1] 0 =
     Inr ([- 1 / 2],
          [\<lparr>script_ops =
              [Gate Hadamard [] [0],
               Gate Hadamard [] [1], Controlled (PauliZ [0]) [1], Gate Hadamard [] [1],
               Gate Rot [1 / 10, 1 / 5, 3 / 10] [0], Gate RX [2 / 5] [0]],
            script_measurements =
              [Measurement ExpectationMP (Some (Tensor [PauliZ [0], PauliY [1]])) []]\<rparr>]) \<and>
   differentiate example_collaborators rot_tape [1] 1 =
     Inr ([- 1 / 2],
          [\<lparr>script_ops =
              [Gate Hadamard [] [0], Gate Rot [1 / 10, 1 / 5, 3 / 10] [0],
               Gate RZ [- (3 / 10)] [0], Gate RX [pi / 2] [0],
               Gate Hadamard [] [1], Controlled (PauliZ [0]) [1], Gate Hadamard [] [1],
               Gate RX [- pi / 2] [0], Gate RZ [3 / 10] [0], Gate RX [2 / 5] [0]],
            script_measurements =
              [Measurement ExpectationMP (Some (Tensor [PauliZ [0], PauliY [1]])) []]\<rparr>]) \<and>
   differentiate example_collaborators rot_tape [1] 2 =
     Inr ([- 1 / 2],
          [\<lparr>script_ops =
              [Gate Hadamard [] [0], Gate Rot [1 / 10, 1 / 5, 3 / 10] [0],
               Gate Hadamard [] [1], Controlled (PauliZ [0]) [1], Gate Hadamard [] [1],
               Gate RX [2 / 5] [0]],
            script_measurements =
              [Measurement ExpectationMP (Some (Tensor [PauliZ [0], PauliY [1]])) []]\<rparr>])"
proof -
  have g0: "get_operation rot_tape 0 = Inr (Gate Rot [1 / 10, 1 / 5, 3 / 10] [0], 1, 0)"
    and g1: "get_operation rot_tape 1 = Inr (Gate Rot [1 / 10, 1 / 5, 3 / 10] [0], 1, 1)"
    and g2: "get_operation rot_tape 2 = Inr (Gate Rot [1 / 10, 1 / 5, 3 / 10] [0], 1, 2)"
    by (simp_all add: get_operation_def rot_tape_def)
  have len: "length [1 / 10, 1 / 5, 3 / 10 :: real] = 3" by simp
  have ops: "operations rot_tape =
      [Gate Hadamard [] [0], Gate Rot [1 / 10, 1 / 5, 3 / 10] [0], Gate RX [2 / 5] [0]]"
    and ms: "measurements rot_tape = [Measurement ExpectationMP (Some (PauliZ [0])) []]"
    by (simp_all add: rot_tape_def)
  note ev = new_tape_def hadamard_test_def extend_measurement_def make_tensor_def
    obs_factors_def example_collaborators_def Let_def ops ms
  from rot_compensation_slots [OF g0 len, of example_collaborators "[1]"]
  have d0: "differentiate example_collaborators rot_tape [1] 0 =
     Inr ([- 1 / 2],
          [\<lparr>script_ops =
              [Gate Hadamard [] [0],
               Gate Hadamard [] [1], Controlled (PauliZ [0]) [1], Gate Hadamard [] [1],
               Gate Rot [1 / 10, 1 / 5, 3 / 10] [0], Gate RX [2 / 5] [0]],
            script_measurements =
              [Measurement ExpectationMP (Some (Tensor [PauliZ [0], PauliY [1]])) []]\<rparr>])"
    by (simp add: ev)
  from rot_compensation_slots [OF g1 len, of example_collaborators "[1]"]
  have d1: "differentiate example_collaborators rot_tape [1] 1 =
     Inr ([- 1 / 2],
          [\<lparr>script_ops =
              [Gate Hadamard [] [0], Gate Rot [1 / 10, 1 / 5, 3 / 10] [0],
               Gate RZ [- (3 / 10)] [0], Gate RX [pi / 2] [0],
               Gate Hadamard [] [1], Controlled (PauliZ [0]) [1], Gate Hadamard [] [1],
               Gate RX [- pi / 2] [0], Gate RZ [3 / 10] [0], Gate RX [2 / 5] [0]],
            script_measurements =
              [Measurement ExpectationMP (Some (Tensor [PauliZ [0], PauliY [1]])) []]\<rparr>])"
    by (simp add: ev)
  from rot_compensation_slots [OF g2 len, of example_collaborators "[1]"]
  have d2: "differentiate example_collaborators rot_tape [1] 2 =
     Inr ([- 1 / 2],
          [\<lparr>script_ops =
              [Gate Hadamard [] [0], Gate Rot [1 / 10, 1 / 5, 3 / 10] [0],
               Gate Hadamard [] [1], Controlled (PauliZ [0]) [1], Gate Hadamard [] [1],
               Gate RX [2 / 5] [0]],
            script_measurements =
              [Measurement ExpectationMP (Some (Tensor [PauliZ [0], PauliY [1]])) []]\<rparr>])"
    by (simp add: ev)
  from g0 g1 g2 len d0 d1 d2 show ?thesis by blast
qed

subsection \<open>The auxiliary circuits\<close>

lemma tensor_factors_plain:
  "list_all plain_observable os \<Longrightarrow> tensor_factors os = Inr os"
proof (induction os)
  case Nil
  then show ?case by simp
next
  case (Cons ob os)
  then show ?case by (cases ob) simp_all
qed

lemma tensor_factors_append:
  "tensor_factors (os @ [PauliY aux]) =
     (case tensor_factors os of Inl e \<Rightarrow> Inl e | Inr fs \<Rightarrow> Inr (fs @ [PauliY aux]))"
  by (induction os rule: tensor_factors.induct) (auto split: sum.splits)

lemma extend_measurement_Inr:
  assumes "extend_measurement aux m = Inr m'"
  shows "(mp_kind m = ExpectationMP \<longrightarrow> mp_kind m' = ExpectationMP) \<and>
         (mp_kind m = ProbabilityMP \<longrightarrow> mp_kind m' = ProbabilityMP) \<and>
         (\<exists>fs. obs m' = Some (Tensor (fs @ [PauliY aux])) \<and>
               (list_all plain_observable (obs_factors m) \<longrightarrow> fs = obs_factors m))"
proof -
  from assms obtain fs where fs: "tensor_factors (obs_factors m) = Inr fs"
    and m': "m' = Measurement (if mp_kind m = ExpectationMP then ExpectationMP else ProbabilityMP)
                    (Some (Tensor (fs @ [PauliY aux]))) []"
    by (auto simp: extend_measurement_def make_tensor_def tensor_factors_append
        split: sum.splits if_splits)
  have "list_all plain_observable (obs_factors m) \<longrightarrow> fs = obs_factors m"
    using fs by (auto dest: tensor_factors_plain)
  with m' show ?thesis by auto
qed

lemma extend_measurement_plain:
  assumes "list_all plain_observable (obs_factors m)"
  shows "\<exists>m'. extend_measurement aux m = Inr m'"
  using tensor_factors_plain [OF assms]
  by (simp add: extend_measurement_def make_tensor_def tensor_factors_append)

lemma extend_measurement_prod:
  "extend_measurement aux (Measurement k (Some (Prod_obs a b)) ws) = Inl ValueError"
  by (simp add: extend_measurement_def make_tensor_def obs_factors_def)

text \<open>
  C4. For every differentiated parameter there is one circuit per generator term, and the
  circuit of term \<open>j\<close> has the gate list
  \<open>prefix @ [Hadamard(aux), ctrl(generator j, aux), Hadamard(aux)] @ suffix\<close> followed by
  the rotations that \<^verbatim>\<open>rotations_and_diagonal_measurements\<close> returns for that gate list
  with the extended measurements, whose measurements it carries. The prefix and the
  suffix are the split after the owning gate, with the compensation for Rot. Every
  original measurement has its extended measurement: that of an expectation is an
  expectation and that of a probability a probability, and its observable is a tensor
  that ends in Y on the auxiliary wire, after the factors of the original observable
  (the factors of a tensor, the observable itself, or Z on each wire when there is
  none) whenever these are plain observables. A measurement with plain factors can
  always be extended; one of a \<^verbatim>\<open>qml.prod\<close> observable cannot, the tensor raises.
\<close>

theorem auxiliary_circuit_layout:
  assumes "expval_hadamard_grad ext t argnum aux_wire = Inr (g_tapes, coeffs, gradient_data)"
    and "i < length (trainable_params t)"
    and "i \<in> set (if argnum = [] then trainable_params t else argnum)"
  shows "(\<exists>op idx p cs gens tps pre suf.
      get_operation t i = Inr (op, idx, p) \<and>
      get_generators (generator ext) op = Inr (cs, gens) \<and>
      rot_compensation op p (take (Suc idx) (operations t)) (drop (Suc idx) (operations t))
        = Inr (pre, suf) \<and>
      (\<not> is_kind Rot op \<longrightarrow>
         pre = take (Suc idx) (operations t) \<and> suf = drop (Suc idx) (operations t)) \<and>
      differentiate ext t aux_wire i = Inr (cs, tps) \<and>
      set tps \<subseteq> set g_tapes \<and> length tps = length gens \<and>
      (\<forall>j < length gens. \<exists>rots ms.
         map (extend_measurement aux_wire) (measurements t) = map Inr ms \<and>
         rotations_and_diagonal_measurements ext
           \<lparr>script_ops =
              pre @ [Gate Hadamard [] aux_wire, Controlled (gens ! j) aux_wire,
                     Gate Hadamard [] aux_wire] @ suf,
            script_measurements = ms\<rparr>
           = Inr (rots, script_measurements (tps ! j)) \<and>
         script_ops (tps ! j) =
           pre @ [Gate Hadamard [] aux_wire, Controlled (gens ! j) aux_wire,
                  Gate Hadamard [] aux_wire] @ suf @ rots)) \<and>
    (\<forall>m m'. extend_measurement aux_wire m = Inr m' \<longrightarrow>
        (mp_kind m = ExpectationMP \<longrightarrow> mp_kind m' = ExpectationMP) \<and>
        (mp_kind m = ProbabilityMP \<longrightarrow> mp_kind m' = ProbabilityMP) \<and>
        (\<exists>fs. obs m' = Some (Tensor (fs @ [PauliY aux_wire])) \<and>
              (list_all plain_observable (obs_factors m) \<longrightarrow> fs = obs_factors m))) \<and>
    (\<forall>m. obs_factors m =
            (case obs m of
               None \<Rightarrow> map (\<lambda>w. PauliZ [w]) (given_wires m)
             | Some (Tensor os) \<Rightarrow> os
             | Some ob \<Rightarrow> [ob])) \<and>
    (\<forall>m. list_all plain_observable (obs_factors m) \<longrightarrow>
          (\<exists>m'. extend_measurement aux_wire m = Inr m')) \<and>
    (\<forall>k a b ws.
        extend_measurement aux_wire (Measurement k (Some (Prod_obs a b)) ws) = Inl ValueError)"
proof -
  from expval_hadamard_grad_differentiated [OF assms] obtain cs tps
    where d: "differentiate ext t aux_wire i = Inr (cs, tps)" and sub: "set tps \<subseteq> set g_tapes"
    by blast
  from differentiate_get_operation [OF d] obtain op idx p
    where g: "get_operation t i = Inr (op, idx, p)" by blast
  from differentiate_char [OF d g] obtain gens pre suf
    where gg: "get_generators (generator ext) op = Inr (cs, gens)"
      and rc: "rot_compensation op p (take (Suc idx) (operations t))
                 (drop (Suc idx) (operations t)) = Inr (pre, suf)"
      and mp: "map (new_tape ext t aux_wire pre suf) gens = map Inr tps"
    by blast
  from mp have len: "length tps = length gens" by (metis length_map)
  have plain: "\<not> is_kind Rot op \<longrightarrow>
         pre = take (Suc idx) (operations t) \<and> suf = drop (Suc idx) (operations t)"
    using rc by (auto simp: rot_compensation_other)
  have each: "\<forall>j < length gens. \<exists>rots ms.
         map (extend_measurement aux_wire) (measurements t) = map Inr ms \<and>
         rotations_and_diagonal_measurements ext
           \<lparr>script_ops =
              pre @ [Gate Hadamard [] aux_wire, Controlled (gens ! j) aux_wire,
                     Gate Hadamard [] aux_wire] @ suf,
            script_measurements = ms\<rparr>
           = Inr (rots, script_measurements (tps ! j)) \<and>
         script_ops (tps ! j) =
           pre @ [Gate Hadamard [] aux_wire, Controlled (gens ! j) aux_wire,
                  Gate Hadamard [] aux_wire] @ suf @ rots"
  proof (intro allI impI)
    fix j assume j: "j < length gens"
    from mp j len have "new_tape ext t aux_wire pre suf (gens ! j) = Inr (tps ! j)"
      by (metis nth_map)
    from new_tape_Inr [OF this] show "\<exists>rots ms.
         map (extend_measurement aux_wire) (measurements t) = map Inr ms \<and>
         rotations_and_diagonal_measurements ext
           \<lparr>script_ops =
              pre @ [Gate Hadamard [] aux_wire, Controlled (gens ! j) aux_wire,
                     Gate Hadamard [] aux_wire] @ suf,
            script_measurements = ms\<rparr>
           = Inr (rots, script_measurements (tps ! j)) \<and>
         script_ops (tps ! j) =
           pre @ [Gate Hadamard [] aux_wire, Controlled (gens ! j) aux_wire,
                  Gate Hadamard [] aux_wire] @ suf @ rots"
      by (simp add: hadamard_test_def)
  qed
  have first: "\<exists>op idx p cs gens tps pre suf.
      get_operation t i = Inr (op, idx, p) \<and>
      get_generators (generator ext) op = Inr (cs, gens) \<and>
      rot_compensation op p (take (Suc idx) (operations t)) (drop (Suc idx) (operations t))
        = Inr (pre, suf) \<and>
      (\<not> is_kind Rot op \<longrightarrow>
         pre = take (Suc idx) (operations t) \<and> suf = drop (Suc idx) (operations t)) \<and>
      differentiate ext t aux_wire i = Inr (cs, tps) \<and>
      set tps \<subseteq> set g_tapes \<and> length tps = length gens \<and>
      (\<forall>j < length gens. \<exists>rots ms.
         map (extend_measurement aux_wire) (measurements t) = map Inr ms \<and>
         rotations_and_diagonal_measurements ext
           \<lparr>script_ops =
              pre @ [Gate Hadamard [] aux_wire, Controlled (gens ! j) aux_wire,
                     Gate Hadamard [] aux_wire] @ suf,
            script_measurements = ms\<rparr>
           = Inr (rots, script_measurements (tps ! j)) \<and>
         script_ops (tps ! j) =
           pre @ [Gate Hadamard [] aux_wire, Controlled (gens ! j) aux_wire,
                  Gate Hadamard [] aux_wire] @ suf @ rots)"
    apply (rule exI [of _ op], rule exI [of _ idx], rule exI [of _ p])
    apply (rule exI [of _ cs], rule exI [of _ gens], rule exI [of _ tps])
    apply (rule exI [of _ pre], rule exI [of _ suf])
    using g gg rc plain d sub len each by simp
  have second: "\<forall>m m'. extend_measurement aux_wire m = Inr m' \<longrightarrow>
        (mp_kind m = ExpectationMP \<longrightarrow> mp_kind m' = ExpectationMP) \<and>
        (mp_kind m = ProbabilityMP \<longrightarrow> mp_kind m' = ProbabilityMP) \<and>
        (\<exists>fs. obs m' = Some (Tensor (fs @ [PauliY aux_wire])) \<and>
              (list_all plain_observable (obs_factors m) \<longrightarrow> fs = obs_factors m))"
    using extend_measurement_Inr by blast
  have third: "\<forall>m. obs_factors m =
            (case obs m of
               None \<Rightarrow> map (\<lambda>w. PauliZ [w]) (given_wires m)
             | Some (Tensor os) \<Rightarrow> os
             | Some ob \<Rightarrow> [ob])"
    by (simp add: obs_factors_def meas_wires_def split: option.splits observable.splits)
  have fourth: "\<forall>m. list_all plain_observable (obs_factors m) \<longrightarrow>
          (\<exists>m'. extend_measurement aux_wire m = Inr m')"
    using extend_measurement_plain by blast
  have fifth: "\<forall>k a b ws.
        extend_measurement aux_wire (Measurement k (Some (Prod_obs a b)) ws) = Inl ValueError"
    by (simp add: extend_measurement_prod)
  from first second third fourth fifth show ?thesis by (intro conjI)
qed

text \<open>The theorem at the CRX circuit with its two generator terms.\<close>

theorem auxiliary_circuit_layout_witness:
  "(expval_hadamard_grad example_collaborators crx_probs_tape [] [2] =
     Inr ([\<lparr>script_ops =
              [Gate CRX [2 / 5] [0, 1],
               Gate Hadamard [] [2], Controlled (PauliX [1]) [2], Gate Hadamard [] [2]],
            script_measurements =
              [Measurement ProbabilityMP (Some (Tensor [PauliZ [1], PauliY [2]])) []]\<rparr>,
           \<lparr>script_ops =
              [Gate CRX [2 / 5] [0, 1],
               Gate Hadamard [] [2], Controlled (Prod_obs (PauliZ [0]) (PauliX [1])) [2],
               Gate Hadamard [] [2]],
            script_measurements =
              [Measurement ProbabilityMP (Some (Tensor [PauliZ [1], PauliY [2]])) []]\<rparr>],
          [- 1 / 4, 1 / 4], [2]) \<and>
    0 < length (trainable_params crx_probs_tape) \<and>
    0 \<in> set (if [] = [] then trainable_params crx_probs_tape else []) \<and>
    extend_measurement [2] (Measurement ProbabilityMP None [1]) =
      Inr (Measurement ProbabilityMP (Some (Tensor [PauliZ [1], PauliY [2]])) []) \<and>
    list_all plain_observable (obs_factors (Measurement ProbabilityMP None [1]))) \<and>
   (\<exists>op idx p cs gens tps.
      get_operation crx_probs_tape 0 = Inr (op, idx, p) \<and>
      get_generators (generator example_collaborators) op = Inr (cs, gens) \<and>
      differentiate example_collaborators crx_probs_tape [2] 0 = Inr (cs, tps) \<and>
      length tps = length gens) \<and>
   (\<exists>fs. obs (Measurement ProbabilityMP (Some (Tensor [PauliZ [1], PauliY [2]])) []) =
            Some (Tensor (fs @ [PauliY [2]])) \<and>
         fs = obs_factors (Measurement ProbabilityMP None [1])) \<and>
   (\<exists>m'. extend_measurement [2] (Measurement ProbabilityMP None [1]) = Inr m')"
proof -
  let ?M = "Measurement ProbabilityMP None [1]"
  let ?M' = "Measurement ProbabilityMP (Some (Tensor [PauliZ [1], PauliY [2]])) []"
  have h1: "expval_hadamard_grad example_collaborators crx_probs_tape [] [2] =
     Inr ([\<lparr>script_ops =
              [Gate CRX [2 / 5] [0, 1],
               Gate Hadamard [] [2], Controlled (PauliX [1]) [2], Gate Hadamard [] [2]],
            script_measurements =
              [Measurement ProbabilityMP (Some (Tensor [PauliZ [1], PauliY [2]])) []]\<rparr>,
           \<lparr>script_ops =
              [Gate CRX [2 / 5] [0, 1],
               Gate Hadamard [] [2], Controlled (Prod_obs (PauliZ [0]) (PauliX [1])) [2],
               Gate Hadamard [] [2]],
            script_measurements =
              [Measurement ProbabilityMP (Some (Tensor [PauliZ [1], PauliY [2]])) []]\<rparr>],
          [- 1 / 4, 1 / 4], [2])"
    by (simp add: example_defs crx_probs_tape_def controlled_rotation_terms_def wire_at_def)
  have h2: "0 < length (trainable_params crx_probs_tape)"
    by (simp add: crx_probs_tape_def)
  have h3: "0 \<in> set (if [] = [] then trainable_params crx_probs_tape else [])"
    by (simp add: crx_probs_tape_def)
  have h4: "extend_measurement [2] ?M = Inr ?M'"
    by (simp add: extend_measurement_def make_tensor_def obs_factors_def meas_wires_def)
  have h5: "list_all plain_observable (obs_factors ?M)"
    by (simp add: obs_factors_def meas_wires_def)
  note layout = auxiliary_circuit_layout [OF h1 h2 h3]
  note circuits = layout [THEN conjunct1]
  note extended = layout [THEN conjunct2, THEN conjunct1, rule_format, OF h4]
  note plain = layout [THEN conjunct2, THEN conjunct2, THEN conjunct2, THEN conjunct1,
      rule_format, OF h5]
  from circuits have c1: "\<exists>op idx p cs gens tps.
      get_operation crx_probs_tape 0 = Inr (op, idx, p) \<and>
      get_generators (generator example_collaborators) op = Inr (cs, gens) \<and>
      differentiate example_collaborators crx_probs_tape [2] 0 = Inr (cs, tps) \<and>
      length tps = length gens"
    by blast
  from extended h5 have c2:
    "\<exists>fs. obs ?M' = Some (Tensor (fs @ [PauliY [2]])) \<and> fs = obs_factors ?M"
    by blast
  from plain have c3: "\<exists>m'. extend_measurement [2] ?M = Inr m'" .
  from h1 h2 h3 h4 h5 c1 c2 c3 show ?thesis by blast
qed

subsection \<open>The empty list of indices\<close>






subsection \<open>Rejections of the entry point\<close>

text \<open>
  C8. For every circuit with a variance, state, entropy or mutual-information
  measurement the transform ends in an error, so it returns no circuit: with the new
  return type active, the error for variances or the error for states.
\<close>

theorem unsupported_measurement_rejected:
  assumes "m \<in> set (measurements t)"
    and "mp_kind m \<in> {VarianceMP, StateMP, VnEntropyMP, MutualInfoMP}"
  shows "(\<exists>e. hadamard_grad ext t argnum aux_wire device_wires = Inl e) \<and>
         (active_return ext \<longrightarrow>
            hadamard_grad ext t argnum aux_wire device_wires = Inl VarianceNotImplemented \<or>
            hadamard_grad ext t argnum aux_wire device_wires = Inl StateNotSupported)"
proof (cases "mp_kind m = VarianceMP")
  case True
  with assms(1) have "\<exists>m \<in> set (measurements t). mp_kind m = VarianceMP" by blast
  then show ?thesis by (simp add: hadamard_grad_def)
next
  case False
  with assms have "\<exists>m \<in> set (measurements t). mp_kind m \<in> {StateMP, VnEntropyMP, MutualInfoMP}"
    by blast
  then show ?thesis by (simp add: hadamard_grad_def)
qed

text \<open>The theorem at a circuit that measures a variance.\<close>

theorem unsupported_measurement_rejected_witness:
  "Measurement VarianceMP (Some (PauliZ [0])) [] \<in> set (measurements variance_tape) \<and>
   mp_kind (Measurement VarianceMP (Some (PauliZ [0])) [])
     \<in> {VarianceMP, StateMP, VnEntropyMP, MutualInfoMP} \<and>
   active_return example_collaborators \<and>
   hadamard_grad example_collaborators variance_tape None (Some [1]) (Some [0, 1])
     = Inl VarianceNotImplemented"
proof -
  have h1: "Measurement VarianceMP (Some (PauliZ [0])) [] \<in> set (measurements variance_tape)"
    by (simp add: variance_tape_def)
  have h2: "mp_kind (Measurement VarianceMP (Some (PauliZ [0])) [])
     \<in> {VarianceMP, StateMP, VnEntropyMP, MutualInfoMP}"
    by simp
  have h3: "active_return example_collaborators"
    by (simp add: example_collaborators_def)
  have ne: "hadamard_grad example_collaborators variance_tape None (Some [1]) (Some [0, 1])
     \<noteq> Inl StateNotSupported"
    by (simp add: hadamard_grad_def variance_tape_def example_collaborators_def)
  from unsupported_measurement_rejected [OF h1 h2, of example_collaborators None "Some [1]" "Some [0, 1]"]
    h3 ne
  have "hadamard_grad example_collaborators variance_tape None (Some [1]) (Some [0, 1])
     = Inl VarianceNotImplemented"
    by blast
  with h1 h2 h3 show ?thesis by blast
qed

text \<open>
  C9, as the code has it. For a call that reaches the wire checks (the new return type
  is active, no measurement is unsupported, neither fast path is taken, and the
  validation and the choice of the methods succeed): a non-empty device wire set with as
  many wires as the circuit ends in the no-free-wire error; otherwise a given auxiliary
  wire that is among the circuit's wires ends in the already-used error, and one that
  is neither among the circuit's wires nor in the given device wire set ends in the
  not-on-the-device error. Each of the three is an error, so no circuit is built.
\<close>

theorem auxiliary_wire_validation:
  assumes "active_return ext"
    and "\<forall>m \<in> set (measurements t).
           mp_kind m \<notin> {VarianceMP, StateMP, VnEntropyMP, MutualInfoMP}"
    and "\<not> (argnum = None \<and> trainable_params t = [])"
    and "grad_method_validation ext t = Inr diff_methods"
    and "\<exists>g \<in> set diff_methods. g \<noteq> ''0''"
    and "choose_grad_methods ext diff_methods argnum = Inr method_map"
  shows "(device_wires = Some dw \<and> dw \<noteq> [] \<and> length (wires t) = length dw \<longrightarrow>
            hadamard_grad ext t argnum aux_wire device_wires = Inl NoFreeWire) \<and>
         (\<not> no_free_wire t device_wires \<and> aux_wire = Some (w # ws) \<and> w \<in> set (wires t) \<longrightarrow>
            hadamard_grad ext t argnum aux_wire device_wires = Inl AuxWireUsed) \<and>
         (\<not> no_free_wire t device_wires \<and> aux_wire = Some (w # ws) \<and> w \<notin> set (wires t) \<and>
          device_wires = Some dw \<and> w \<notin> set dw \<longrightarrow>
            hadamard_grad ext t argnum aux_wire device_wires = Inl AuxWireNotOnDevice)"
proof -
  have ar: "(\<not> active_return ext) = False"
    using assms(1) by simp
  have v: "(\<exists>m \<in> set (measurements t). mp_kind m = VarianceMP) = False"
    using assms(2) by auto
  have s: "(\<exists>m \<in> set (measurements t). mp_kind m \<in> {StateMP, VnEntropyMP, MutualInfoMP}) = False"
    using assms(2) by auto
  have nt: "(argnum = None \<and> trainable_params t = []) = False"
    using assms(3) by simp
  have z: "(\<forall>g \<in> set diff_methods. g = ''0'') = False"
    using assms(5) by blast
  have reach: "hadamard_grad ext t argnum aux_wire device_wires =
      (if no_free_wire t device_wires then Inl NoFreeWire
       else case choose_aux_wire ext t aux_wire device_wires of
              Inl e \<Rightarrow> Inl e
            | Inr aw \<Rightarrow>
                (case expval_hadamard_grad ext t
                        (map fst (filter (\<lambda>(i, dm). dm = ''A'') method_map)) aw of
                   Inl e \<Rightarrow> Inl e
                 | Inr (g_tapes, coeffs, gradient_data) \<Rightarrow>
                     Inr (Gradient g_tapes coeffs gradient_data)))"
    unfolding hadamard_grad_def
    by (simp only: ar v s nt z assms(4) assms(6) if_False sum.case Let_def)
  show ?thesis
    unfolding reach by (auto simp: choose_aux_wire_def wire_at_def)
qed

text \<open>
  The claim as it is worded fails where its cases overlap: with the auxiliary wire 0 of
  the circuit and the one-wire device the error is the no-free-wire one, not the
  already-used one; with the auxiliary wire 0 of the circuit and a device without wire 0
  the error is the already-used one, not the not-on-the-device one.
\<close>

theorem auxiliary_wire_validation_counterexample:
  "hadamard_grad example_collaborators phase_tape None (Some [0]) (Some [0]) = Inl NoFreeWire \<and>
   0 \<in> set (wires phase_tape) \<and>
   hadamard_grad example_collaborators phase_tape None (Some [0]) (Some [0]) \<noteq> Inl AuxWireUsed \<and>
   hadamard_grad example_collaborators phase_tape None (Some [0]) (Some [1, 2]) = Inl AuxWireUsed \<and>
   0 \<notin> set [1, 2 :: nat] \<and>
   hadamard_grad example_collaborators phase_tape None (Some [0]) (Some [1, 2])
     \<noteq> Inl AuxWireNotOnDevice"
  by (simp add: hadamard_grad_def phase_tape_def example_collaborators_def
      choose_aux_wire_def wire_at_def)


text \<open>The three cases at the PhaseShift circuit.\<close>

theorem auxiliary_wire_validation_witness:
  "(active_return example_collaborators \<and>
    list_all (\<lambda>m. mp_kind m \<notin> {VarianceMP, StateMP, VnEntropyMP, MutualInfoMP})
      (measurements phase_tape) \<and>
    trainable_params phase_tape \<noteq> [] \<and>
    grad_method_validation example_collaborators phase_tape = Inr [''A''] \<and>
    ''A'' \<in> set [''A''] \<and> ''A'' \<noteq> ''0'' \<and>
    choose_grad_methods example_collaborators [''A''] None = Inr [(0, ''A'')]) \<and>
   hadamard_grad example_collaborators phase_tape None (Some [1]) (Some [0]) = Inl NoFreeWire \<and>
   hadamard_grad example_collaborators phase_tape None (Some [0]) (Some [0, 1])
     = Inl AuxWireUsed \<and>
   hadamard_grad example_collaborators phase_tape None (Some [5]) (Some [0, 1])
     = Inl AuxWireNotOnDevice"
proof -
  have h1: "active_return example_collaborators"
    by (simp add: example_collaborators_def)
  have h2: "\<forall>m \<in> set (measurements phase_tape).
        mp_kind m \<notin> {VarianceMP, StateMP, VnEntropyMP, MutualInfoMP}"
    by (simp add: phase_tape_def)
  have h3: "\<not> (None = (None :: nat list option) \<and> trainable_params phase_tape = [])"
    by (simp add: phase_tape_def)
  have h4: "grad_method_validation example_collaborators phase_tape = Inr [''A'']"
    by (simp add: example_collaborators_def phase_tape_def)
  have h5: "\<exists>g \<in> set [''A'']. g \<noteq> ''0''"
    by simp
  have h6: "choose_grad_methods example_collaborators [''A''] None = Inr [(0, ''A'')]"
    by (simp add: example_collaborators_def)
  note val = auxiliary_wire_validation [OF h1 h2 h3 h4 h5 h6]
  have w: "wires phase_tape = [0]"
    by (simp add: phase_tape_def)
  from val [of "Some [0]" "[0]" "Some [1]" 1 "[]"]
  have a: "hadamard_grad example_collaborators phase_tape None (Some [1]) (Some [0])
             = Inl NoFreeWire"
    by (simp add: w)
  from val [of "Some [0, 1]" "[0, 1]" "Some [0]" 0 "[]"]
  have b: "hadamard_grad example_collaborators phase_tape None (Some [0]) (Some [0, 1])
             = Inl AuxWireUsed"
    by (simp add: w)
  from val [of "Some [0, 1]" "[0, 1]" "Some [5]" 5 "[]"]
  have c: "hadamard_grad example_collaborators phase_tape None (Some [5]) (Some [0, 1])
             = Inl AuxWireNotOnDevice"
    by (simp add: w)
  have s2: "list_all (\<lambda>m. mp_kind m \<notin> {VarianceMP, StateMP, VnEntropyMP, MutualInfoMP})
      (measurements phase_tape)"
    by (simp add: phase_tape_def)
  have s3: "trainable_params phase_tape \<noteq> []"
    by (simp add: phase_tape_def)
  have s5: "''A'' \<in> set [''A''] \<and> ''A'' \<noteq> ''0''"
    by simp
  from h1 s2 s3 h4 s5 h6 a b c show ?thesis by blast
qed

lemmas post_defs = processing_fn_def compute_grads_def scale_results_def scale_result_def
  project_probs_def measurements_probs_def multi_measurements_def multi_params_def
  num_wires_probs_def meas_wires_def project_def reshape_def tensordot_def np_sum_def
  shape_result_def list_at_def grads_reorder_def Let_def


subsection \<open>Post-processing: the projection of probabilities\<close>



lemma collect_map_Inr_fun:
  "(\<And>x. x \<in> set xs \<Longrightarrow> f x = Inr (g x)) \<Longrightarrow> collect (map f xs) = Inr (map g xs)"
  by (induction xs) auto











subsection \<open>Post-processing: the shape of the gradient\<close>

lemma aggregate_length:
  "aggregate mm gd fr idx = Inr grads \<Longrightarrow> length grads = length gd"
  by (induction gd arbitrary: idx grads) (auto split: if_splits sum.splits)

lemma compute_grads_length:
  "compute_grads t coeffs gd results = Inr grads \<Longrightarrow> length grads = length gd"
  by (auto simp: compute_grads_def split: sum.splits dest: aggregate_length)

lemma grads_reorder_rows:
  assumes len: "length grads = length (trainable_params t)"
    and ix: "\<forall>j < length (trainable_params t). \<forall>i < length (measurements t).
               \<exists>v. index (grads ! j) i = Inr v"
  shows "grads_reorder t grads =
         Inr (Seq (map (\<lambda>i. Seq (map (\<lambda>j. projr (index (grads ! j) i))
                                     [0..<length (trainable_params t)]))
                    [0..<length (measurements t)]))"
proof -
  have inner: "collect (map (\<lambda>j. case list_at grads j of Inl e \<Rightarrow> Inl e | Inr g \<Rightarrow> index g i)
                          [0..<length (trainable_params t)])
               = Inr (map (\<lambda>j. projr (index (grads ! j) i)) [0..<length (trainable_params t)])"
    if "i < length (measurements t)" for i
  proof (rule collect_map_Inr_fun)
    fix j assume "j \<in> set [0..<length (trainable_params t)]"
    then have j: "j < length (trainable_params t)" by simp
    with ix that obtain v where "index (grads ! j) i = Inr v" by blast
    with j len show "(case list_at grads j of Inl e \<Rightarrow> Inl e | Inr g \<Rightarrow> index g i)
                     = Inr (projr (index (grads ! j) i))"
      by (simp add: list_at_def)
  qed
  have "collect (map (\<lambda>i.
              case collect (map (\<lambda>j.
                       case list_at grads j of Inl e \<Rightarrow> Inl e | Inr g \<Rightarrow> index g i)
                     [0..<length (trainable_params t)]) of
                Inl e \<Rightarrow> Inl e
              | Inr row \<Rightarrow> Inr (Seq row))
            [0..<length (measurements t)])
        = Inr (map (\<lambda>i. Seq (map (\<lambda>j. projr (index (grads ! j) i))
                                     [0..<length (trainable_params t)]))
                    [0..<length (measurements t)])"
    by (rule collect_map_Inr_fun) (simp add: inner)
  then show ?thesis by (simp add: grads_reorder_def)
qed

text \<open>
  The four return statements, on per-parameter results \<open>grads\<close> that can be unpacked
  where the statement unpacks them: with \<open>k = 1\<close> and \<open>m = 1\<close> the lone entry; with \<open>k > 1\<close>
  and \<open>m = 1\<close> the sequence of the entries; with \<open>k = 1\<close> and \<open>m > 1\<close> the members of the lone
  entry; with \<open>k > 1\<close> and \<open>m > 1\<close> the rows of \<open>grads\<close> read by column.
\<close>

lemma shape_result_cases:
  assumes "compute_grads t coeffs gradient_data results = Inr grads"
    and "length gradient_data = length (trainable_params t)"
  shows "length grads = length (trainable_params t) \<and>
    (length (trainable_params t) = 1 \<and> length (measurements t) = 1 \<longrightarrow>
       processing_fn t coeffs gradient_data results = Inr (grads ! 0)) \<and>
    (1 < length (trainable_params t) \<and> length (measurements t) = 1 \<longrightarrow>
       processing_fn t coeffs gradient_data results = Inr (Seq grads)) \<and>
    (length (trainable_params t) = 1 \<and> 1 < length (measurements t) \<and>
     (grads ! 0 = Seq xs \<or> (\<exists>ys. grads ! 0 = A (Arr ys) \<and> xs = map A ys)) \<longrightarrow>
       processing_fn t coeffs gradient_data results = Inr (Seq xs)) \<and>
    (1 < length (trainable_params t) \<and> 1 < length (measurements t) \<and>
     (\<forall>j < length (trainable_params t). \<forall>i < length (measurements t).
         \<exists>v. index (grads ! j) i = Inr v) \<longrightarrow>
       (\<exists>rows. processing_fn t coeffs gradient_data results = Inr (Seq rows) \<and>
          length rows = length (measurements t) \<and>
          (\<forall>i < length (measurements t). \<exists>row.
              rows ! i = Seq row \<and> length row = length (trainable_params t) \<and>
              (\<forall>j < length (trainable_params t). index (grads ! j) i = Inr (row ! j)))))"
proof -
  let ?k = "length (trainable_params t)" and ?m = "length (measurements t)"
  have len: "length grads = ?k"
    using compute_grads_length [OF assms(1)] assms(2) by simp
  have pf: "processing_fn t coeffs gradient_data results = shape_result t grads"
    using assms(1) by (simp add: processing_fn_def)
  have c1: "?k = 1 \<and> ?m = 1 \<longrightarrow> shape_result t grads = Inr (grads ! 0)"
    using len by (simp add: shape_result_def multi_measurements_def multi_params_def list_at_def)
  have c2: "1 < ?k \<and> ?m = 1 \<longrightarrow> shape_result t grads = Inr (Seq grads)"
    by (simp add: shape_result_def multi_measurements_def multi_params_def)
  have c3: "?k = 1 \<and> 1 < ?m \<and>
     (grads ! 0 = Seq xs \<or> (\<exists>ys. grads ! 0 = A (Arr ys) \<and> xs = map A ys)) \<longrightarrow>
       shape_result t grads = Inr (Seq xs)"
    using len
    by (auto simp: shape_result_def multi_measurements_def multi_params_def list_at_def)
  have c4: "\<exists>rows. shape_result t grads = Inr (Seq rows) \<and>
          length rows = ?m \<and>
          (\<forall>i < ?m. \<exists>row.
              rows ! i = Seq row \<and> length row = ?k \<and>
              (\<forall>j < ?k. index (grads ! j) i = Inr (row ! j)))"
    if km: "1 < ?k" "1 < ?m"
      and ix: "\<forall>j < ?k. \<forall>i < ?m. \<exists>v. index (grads ! j) i = Inr v"
  proof -
    let ?rows = "map (\<lambda>i. Seq (map (\<lambda>j. projr (index (grads ! j) i)) [0..<?k])) [0..<?m]"
    have "shape_result t grads = grads_reorder t grads"
      using km by (simp add: shape_result_def multi_measurements_def multi_params_def)
    also have "\<dots> = Inr (Seq ?rows)"
      by (rule grads_reorder_rows [OF len ix])
    finally have r: "shape_result t grads = Inr (Seq ?rows)" .
    have entries: "\<forall>i < ?m. \<exists>row.
              ?rows ! i = Seq row \<and> length row = ?k \<and>
              (\<forall>j < ?k. index (grads ! j) i = Inr (row ! j))"
    proof (intro allI impI)
      fix i assume i: "i < ?m"
      let ?row = "map (\<lambda>j. projr (index (grads ! j) i)) [0..<?k]"
      have "\<forall>j < ?k. index (grads ! j) i = Inr (?row ! j)"
      proof (intro allI impI)
        fix j assume j: "j < ?k"
        with ix i obtain v where "index (grads ! j) i = Inr v" by blast
        with j show "index (grads ! j) i = Inr (?row ! j)" by simp
      qed
      with i show "\<exists>row. ?rows ! i = Seq row \<and> length row = ?k \<and>
              (\<forall>j < ?k. index (grads ! j) i = Inr (row ! j))"
        by simp
    qed
    from r entries show ?thesis
      by (intro exI [of _ ?rows]) simp
  qed
  from len c1 c2 c3 c4 show ?thesis unfolding pf by blast
qed


text \<open>
  C7. With one measurement the convention holds also for a parameter that is not
  differentiated: its entry is the bare zero, and the sequence of the entries is
  returned. With several measurements and several parameters the rows are read by
  column when every parameter has a circuit; but when a parameter has none, its entry
  is the bare zero, which cannot be indexed, and the function raises an IndexError
  where the convention has a sequence over the measurements, each a sequence over the
  parameters. The coefficients and the emission counts are the ones the transform
  returns for the circuit with two parameters and two measurements, differentiated in
  its first parameter.
\<close>

theorem zero_count_breaks_reordering:
  "map_sum id snd (expval_hadamard_grad example_collaborators two_measurement_tape [0] [1]) =
     Inr ([- 1 / 2], [1, 0]) \<and>
   compute_grads two_measurement_tape [- 1 / 2] [1, 0]
     [Seq [A (Num (1 / 5)), A (Arr [Num (3 / 10), Num (2 / 10), Num (1 / 10), Num (4 / 10)])]] =
     Inr [Seq [A (Num (- 1 / 5)), A (Arr [Num (- 1 / 10), Num (3 / 10)])], A (Num 0)] \<and>
   index (A (Num 0)) 0 = Inl IndexError \<and>
   processing_fn two_measurement_tape [- 1 / 2] [1, 0]
     [Seq [A (Num (1 / 5)), A (Arr [Num (3 / 10), Num (2 / 10), Num (1 / 10), Num (4 / 10)])]] =
     Inl IndexError \<and>
   processing_fn two_measurement_tape [- 1 / 2, - 1 / 2] [1, 1]
     [Seq [A (Num (1 / 5)), A (Arr [Num (3 / 10), Num (2 / 10), Num (1 / 10), Num (4 / 10)])],
      Seq [A (Num (2 / 5)), A (Arr [Num (4 / 10), Num (1 / 10), Num (3 / 10), Num (2 / 10)])]] =
     Inr (Seq [Seq [A (Num (- 1 / 5)), A (Num (- 2 / 5))],
               Seq [A (Arr [Num (- 1 / 10), Num (3 / 10)]),
                    A (Arr [Num (- 3 / 10), Num (- 1 / 10)])]]) \<and>
   processing_fn
     (two_measurement_tape\<lparr>measurements := [Measurement ExpectationMP (Some (PauliZ [0])) []]\<rparr>)
     [- 1 / 2] [1, 0] [A (Num (1 / 5))] =
     Inr (Seq [A (Num (- 1 / 5)), A (Num 0)])"
  by (simp add: post_defs example_defs two_measurement_tape_def upt_rec)

subsection \<open>Post-processing: the sum over generator terms\<close>

text \<open>
  C5. The results are scaled by twice the coefficients in emission order and projected,
  and the entry of a parameter with more than one circuit is a sum of its results. For
  the CRX circuit with a single probability measurement that sum is taken with
  \<^verbatim>\<open>axis=None\<close>: the two projected vectors \<open>[-0.05, 0.15]\<close> and \<open>[0.15, 0.05]\<close> are added
  up to the scalar \<open>0.3\<close>, where the sum entry by entry (\<^verbatim>\<open>axis=0\<close>, as for several
  measurements) is \<open>[0.1, 0.2]\<close>. The coefficients and the emission count are the ones
  the transform returns for that circuit.
\<close>

theorem single_probability_sum_collapses:
  "map_sum id snd (expval_hadamard_grad example_collaborators crx_probs_tape [] [2]) =
     Inr ([- 1 / 4, 1 / 4], [2]) \<and>
   processing_fn crx_probs_tape [- 1 / 4, 1 / 4] [2]
     [A (Arr [Num (3 / 10), Num (2 / 10), Num (1 / 10), Num (4 / 10)]),
      A (Arr [Num (4 / 10), Num (1 / 10), Num (3 / 10), Num (2 / 10)])] =
     Inr (A (Num (3 / 10))) \<and>
   scale_results [- 1 / 4, 1 / 4]
     [A (Arr [Num (3 / 10), Num (2 / 10), Num (1 / 10), Num (4 / 10)]),
      A (Arr [Num (4 / 10), Num (1 / 10), Num (3 / 10), Num (2 / 10)])] =
     Inr [A (Arr [Num (- 3 / 20), Num (- 1 / 10), Num (- 1 / 20), Num (- 1 / 5)]),
          A (Arr [Num (1 / 5), Num (1 / 20), Num (3 / 20), Num (1 / 10)])] \<and>
   project_probs crx_probs_tape
     [A (Arr [Num (- 3 / 20), Num (- 1 / 10), Num (- 1 / 20), Num (- 1 / 5)]),
      A (Arr [Num (1 / 5), Num (1 / 20), Num (3 / 20), Num (1 / 10)])] =
     Inr [A (Arr [Num (- 1 / 20), Num (3 / 20)]), A (Arr [Num (3 / 20), Num (1 / 20)])] \<and>
   np_sum (Some 0) [A (Arr [Num (- 1 / 20), Num (3 / 20)]), A (Arr [Num (3 / 20), Num (1 / 20)])] =
     Inr (A (Arr [Num (1 / 10), Num (1 / 5)])) \<and>
   np_sum None [A (Arr [Num (- 1 / 20), Num (3 / 20)]), A (Arr [Num (3 / 20), Num (1 / 20)])] =
     Inr (A (Num (3 / 10)))"
  by (simp add: post_defs example_defs crx_probs_tape_def controlled_rotation_terms_def
      wire_at_def upt_rec)

end
